theory Spec2Isabelle
  imports Complex_Main "HOL-Library.Log_Nat"
begin

section \<open>Numbers\<close>

text \<open>
  The program is JavaScript; every quantity in it (prices, sizes, timestamps, tick and
  step sizes) is a \<^verbatim>\<open>number\<close>, an IEEE 754 binary64 value. The development reads a
  finite \<^verbatim>\<open>number\<close> as the \<^typ>\<open>real\<close> it denotes. \<^verbatim>\<open>NaN\<close> and the infinities are
  outside the model. A value that may be \<^verbatim>\<open>undefined\<close> or \<^verbatim>\<open>null\<close> is an
  \<^typ>\<open>'a option\<close>. Log output is not modelled.

  Each arithmetic operation of the program rounds its exact result to binary64. The step
  alignment of \<^verbatim>\<open>utils.js\<close> and the VWAP and depth mid price of \<^verbatim>\<open>orderbook.js\<close> are
  modelled with that rounding, operation by operation, because what is stated of their
  results depends on it. The other operations are modelled exactly; nothing below depends
  on the rounding there.
\<close>

subsection \<open>Rounding to binary64\<close>

text \<open>
  \<open>binade x\<close> is \<open>\<lfloor>log\<^sub>2 \<bar>x\<bar>\<rfloor>\<close> for \<open>x \<noteq> 0\<close>, computed from the bit length of an integer:
  of \<open>\<lfloor>\<bar>x\<bar>\<rfloor>\<close> when \<open>\<bar>x\<bar> \<ge> 1\<close>, of \<open>\<lceil>1 / \<bar>x\<bar>\<rceil> - 1\<close> otherwise.
\<close>

definition binade :: "real \<Rightarrow> int" where
  "binade x =
     (if 1 \<le> \<bar>x\<bar> then bitlen \<lfloor>\<bar>x\<bar>\<rfloor> - 1 else - bitlen (\<lceil>1 / \<bar>x\<bar>\<rceil> - 1))"

definition round_half_even :: "real \<Rightarrow> int" where
  \<comment> \<open>the nearest integer, a tie going to the even one\<close>
  "round_half_even y =
     (let f = \<lfloor>y\<rfloor>; r = y - of_int f
      in if r < 1 / 2 then f else if 1 / 2 < r then f + 1 else if even f then f else f + 1)"

definition binary64_emin :: int where
  \<comment> \<open>the exponent of the smallest normal number\<close>
  "binary64_emin = - 1022"

text \<open>
  The binary64 value nearest to \<open>x\<close>, ties to even: a multiple of the quantum
  \<open>2 powi (e - 52)\<close>, where \<open>e\<close> is the binade of \<open>x\<close>, or \<open>-1022\<close> for a subnormal
  \<open>x\<close>.
\<close>

definition binary64 :: "real \<Rightarrow> real" where
  "binary64 x =
     (if x = 0 then 0
      else
        (let e = max (binade x) binary64_emin;
             quantum = 2 powi (e - 52)
         in of_int (round_half_even (x / quantum)) * quantum))"

definition unit_roundoff :: real where
  "unit_roundoff = 2 powi (- 53)"

definition min_normal :: real where
  "min_normal = 2 powi binary64_emin"

text \<open>
  An exact result whose magnitude reaches \<open>binary64_overflow\<close>, half a quantum above the
  largest binary64 value, is \<^verbatim>\<open>Infinity\<close> in the program: \<open>binary64\<close> is the rounding of
  the program on the values in range, and overflow is outside the model.
\<close>

definition binary64_overflow :: real where
  "binary64_overflow = 2 powi 1024 - 2 powi 970"

definition in_binary64_range :: "real \<Rightarrow> bool" where
  "in_binary64_range x \<longleftrightarrow> \<bar>x\<bar> < binary64_overflow"

subsection \<open>Math.round and Math.floor\<close>

definition js_round :: "real \<Rightarrow> real" where
  \<comment> \<open>\<^verbatim>\<open>Math.round\<close>: the nearest integer, a tie going up.\<close>
  "js_round x = of_int \<lfloor>x + 1 / 2\<rfloor>"

definition js_floor :: "real \<Rightarrow> real" where
  \<comment> \<open>\<^verbatim>\<open>Math.floor\<close>.\<close>
  "js_floor x = of_int \<lfloor>x\<rfloor>"

section \<open>utils.js\<close>

definition adjustPriceToTickSize :: "real \<Rightarrow> real option \<Rightarrow> real" where
  "adjustPriceToTickSize price tickSize =
     (case tickSize of
        None \<Rightarrow> price
      | Some t \<Rightarrow> if t \<le> 0 then price else js_round (price / t) * t)"

text \<open>
  \<^verbatim>\<open>Math.floor(amount / stepSize) * stepSize\<close>: the quotient and the product are each
  rounded to binary64; the floor of a binary64 value is exact.
\<close>

definition adjustAmountToStepSize :: "real \<Rightarrow> real option \<Rightarrow> real" where
  "adjustAmountToStepSize amount stepSize =
     (case stepSize of
        None \<Rightarrow> amount
      | Some s \<Rightarrow> if s \<le> 0 then amount else binary64 (js_floor (binary64 (amount / s)) * s))"

section \<open>orderbook.js\<close>

type_synonym order_book_side = "(real \<times> real) list"

record order_book =
  bids :: "order_book_side option"
  asks :: "order_book_side option"

text \<open>
  The two functions below are written over a rounding operator \<open>rnd\<close>, applied to the
  result of every arithmetic operation. The program is the instance \<open>rnd = binary64\<close>;
  the instance \<open>rnd = id\<close> is the same algorithm in exact arithmetic.
\<close>

text \<open>
  The body of the loop of \<^verbatim>\<open>calculateVwap\<close>, run over the entries the loop index visits.
  An entry is a pair of numbers, so the two \<^verbatim>\<open>typeof\<close> tests never skip one; an entry
  is skipped when its volume is not positive. The price is not tested.
\<close>

fun vwap_loop :: "(real \<Rightarrow> real) \<Rightarrow> order_book_side \<Rightarrow> real \<Rightarrow> real \<Rightarrow> real \<times> real" where
  "vwap_loop rnd [] weightedSum totalVolume = (weightedSum, totalVolume)"
| "vwap_loop rnd ((price, volume) # rest) weightedSum totalVolume =
     (if volume \<le> 0 then vwap_loop rnd rest weightedSum totalVolume
      else vwap_loop rnd rest (rnd (weightedSum + rnd (price * volume)))
             (rnd (totalVolume + volume)))"

text \<open>
  \<^verbatim>\<open>for (let i = 0; i < depth; i++)\<close> with \<^verbatim>\<open>depth = Math.min(orders.length, levels)\<close>
  visits the indices \<open>0, \<dots>, \<lceil>depth\<rceil> - 1\<close>, all of them inside the array.
\<close>

definition calculateVwap_with ::
  "(real \<Rightarrow> real) \<Rightarrow> order_book_side option \<Rightarrow> real \<Rightarrow> real option" where
  "calculateVwap_with rnd orders levels =
     (case orders of
        None \<Rightarrow> None
      | Some os \<Rightarrow>
          if os = [] \<or> levels \<le> 0 then None
          else
            (let depth = min (real (length os)) levels;
                 (weightedSum, totalVolume) = vwap_loop rnd (take (nat \<lceil>depth\<rceil>) os) 0 0
             in if totalVolume = 0 then None else Some (rnd (weightedSum / totalVolume))))"

definition calculateVwap :: "order_book_side option \<Rightarrow> real \<Rightarrow> real option" where
  "calculateVwap orders levels = calculateVwap_with binary64 orders levels"

definition bestPrice :: "order_book_side option \<Rightarrow> real option" where
  \<comment> \<open>\<^verbatim>\<open>side[0][0]\<close> when \<^verbatim>\<open>side?.length > 0\<close>.\<close>
  "bestPrice orders =
     (case orders of None \<Rightarrow> None | Some [] \<Rightarrow> None | Some ((price, volume) # rest) \<Rightarrow> Some price)"

definition calculateDepthMidPrice_with ::
  "(real \<Rightarrow> real) \<Rightarrow> order_book option \<Rightarrow> real \<Rightarrow> real option" where
  "calculateDepthMidPrice_with rnd orderBook levels =
     (case orderBook of
        None \<Rightarrow> None
      | Some ob \<Rightarrow>
          (case (calculateVwap_with rnd (bids ob) levels, calculateVwap_with rnd (asks ob) levels) of
             (Some bidVwap, Some askVwap) \<Rightarrow> Some (rnd (rnd (bidVwap + askVwap) / 2))
           | _ \<Rightarrow>
              (case (bestPrice (bids ob), bestPrice (asks ob)) of
                 (Some bestBid, Some bestAsk) \<Rightarrow> Some (rnd (rnd (bestBid + bestAsk) / 2))
               | _ \<Rightarrow> None)))"

definition calculateDepthMidPrice :: "order_book option \<Rightarrow> real \<Rightarrow> real option" where
  "calculateDepthMidPrice orderBook levels = calculateDepthMidPrice_with binary64 orderBook levels"

fun volume_loop :: "order_book_side \<Rightarrow> real \<Rightarrow> real \<Rightarrow> real \<Rightarrow> real" where
  "volume_loop [] lowerBound upperBound cumulativeVolume = cumulativeVolume"
| "volume_loop ((price, volume) # rest) lowerBound upperBound cumulativeVolume =
     (if lowerBound \<le> price \<and> price \<le> upperBound
      then volume_loop rest lowerBound upperBound (cumulativeVolume + volume)
      else volume_loop rest lowerBound upperBound cumulativeVolume)"

definition getVolumeNearPrice :: "order_book_side option \<Rightarrow> real \<Rightarrow> real \<Rightarrow> real" where
  "getVolumeNearPrice orders targetPrice priceRange =
     (case orders of
        None \<Rightarrow> 0
      | Some os \<Rightarrow>
          if os = [] \<or> priceRange < 0 then 0
          else volume_loop os (targetPrice - priceRange) (targetPrice + priceRange) 0)"

definition getVolumeNearPriceTicks ::
  "order_book_side option \<Rightarrow> real \<Rightarrow> real \<Rightarrow> real option \<Rightarrow> real" where
  "getVolumeNearPriceTicks orders targetPrice rangeTicks tickSize =
     (case tickSize of
        None \<Rightarrow> 0
      | Some t \<Rightarrow> if t \<le> 0 then 0 else getVolumeNearPrice orders targetPrice (rangeTicks * t))"

section \<open>strategy.js\<close>

subsection \<open>State, configuration and the venue\<close>

datatype side = Buy | Sell

text \<open>
  The fields of \<^verbatim>\<open>MarketMakerStrategy\<close> that change after construction. The class
  initialises both order ids to \<^verbatim>\<open>null\<close>, the volume to \<open>0\<close> and the timestamp to
  \<^verbatim>\<open>undefined\<close>.
\<close>

record strategy_state =
  currentBuyOrderId :: "string option"
  currentSellOrderId :: "string option"
  totalTradedBaseVolume :: real
  lastTradeTimestamp :: "real option"

definition initial_state :: strategy_state where
  "initial_state =
     \<lparr>currentBuyOrderId = None, currentSellOrderId = None,
      totalTradedBaseVolume = 0, lastTradeTimestamp = None\<rparr>"

text \<open>The precision read from the market at construction (\<^verbatim>\<open>minAmount ?? 0\<close>).\<close>

record market_precision =
  tickSize :: "real option"
  stepSize :: "real option"
  minAmount :: real

text \<open>The configuration fields the cycle reads; an option where the code writes \<^verbatim>\<open>??\<close>.\<close>

record config =
  orderBookDepthLevels :: real
  targetSpreadPct :: real
  minSpread :: "real option"
  maxSpread :: "real option"
  inventorySkewIntensity :: real
  positionLimit :: "real option"
  baseAmount :: real
  liquidityVolumeThreshold :: real
  rangeTicksForLiquidity :: "real option"
  minNotionalValue :: "real option"

text \<open>
  What one cycle fetched: the order book, the free quote balance and the position size
  (already a number: \<^verbatim>\<open>Number(...) || 0\<close>). The ticker is only logged.
\<close>

record market_snapshot =
  snapshotOrderBook :: "order_book option"
  snapshotBalance :: real
  snapshotPositionSize :: real

text \<open>
  An error thrown by the venue layer, as far as the code inspects it: the \<^verbatim>\<open>instanceof\<close>
  tests it makes, and the message it searches.
\<close>

record venue_error =
  isExchangeError :: bool
  isOrderNotFound :: bool
  isAuthenticationError :: bool
  isExchangeNotAvailable :: bool
  isRateLimitExceeded :: bool
  errorMessage :: string

text \<open>The order calls a function issues to the venue, in the order it issues them.\<close>

datatype order_call =
    EditOrder string side real real
  | CancelOrder string
  | CreateOrder side real real

text \<open>
  The venue's answers to the calls one \<^verbatim>\<open>manageOrder\<close> can make. \<open>Inl\<close> is a thrown
  error. \<^verbatim>\<open>ExchangeService.cancelOrder\<close> as written catches every venue error and
  returns a boolean; the model also admits a throwing one, which \<^verbatim>\<open>manageOrder\<close> is
  written to survive. A created order is \<open>Inr None\<close> when the venue returned no order
  or an order without an id.
\<close>

record order_answers =
  editAnswer :: "venue_error + unit"
  cancelAnswer :: "venue_error + bool"
  cancelAfterEditErrorAnswer :: "venue_error + bool"
  createAnswer :: "venue_error + string option"

record trade =
  tradeTimestamp :: real
  tradeAmount :: real

subsection \<open>Small helpers for JavaScript idioms\<close>

fun includes_str :: "string \<Rightarrow> string \<Rightarrow> bool" where
  \<comment> \<open>\<^verbatim>\<open>String.prototype.includes\<close>.\<close>
  "includes_str [] sub = (sub = [])"
| "includes_str (c # cs) sub = (take (length sub) (c # cs) = sub \<or> includes_str cs sub)"

definition trackedOrderId :: "side \<Rightarrow> strategy_state \<Rightarrow> string option" where
  \<comment> \<open>\<^verbatim>\<open>side === 'buy' ? this.currentBuyOrderId : this.currentSellOrderId\<close>\<close>
  "trackedOrderId sd st = (case sd of Buy \<Rightarrow> currentBuyOrderId st | Sell \<Rightarrow> currentSellOrderId st)"

definition setTrackedOrderId :: "side \<Rightarrow> string option \<Rightarrow> strategy_state \<Rightarrow> strategy_state" where
  \<comment> \<open>\<^verbatim>\<open>if (side === 'buy') this.currentBuyOrderId = v; else this.currentSellOrderId = v;\<close>\<close>
  "setTrackedOrderId sd v st =
     (case sd of Buy \<Rightarrow> st\<lparr>currentBuyOrderId := v\<rparr> | Sell \<Rightarrow> st\<lparr>currentSellOrderId := v\<rparr>)"

subsection \<open>updateTradedVolume\<close>

text \<open>
  The loop over the fetched trades: \<open>watermark\<close> is \<^verbatim>\<open>this.lastTradeTimestamp ?? 0\<close>,
  which the loop does not change.
\<close>

fun trades_loop :: "trade list \<Rightarrow> real \<Rightarrow> real \<Rightarrow> real \<Rightarrow> real \<times> real" where
  "trades_loop [] watermark newVolume latestTimestamp = (newVolume, latestTimestamp)"
| "trades_loop (t # ts) watermark newVolume latestTimestamp =
     (if watermark < tradeTimestamp t
      then trades_loop ts watermark (newVolume + tradeAmount t)
             (max latestTimestamp (tradeTimestamp t))
      else trades_loop ts watermark newVolume latestTimestamp)"

text \<open>
  \<open>fetched\<close> is the outcome of \<^verbatim>\<open>fetchMyTrades(symbol, this.lastTradeTimestamp)\<close>: a
  thrown error, or the trades (\<open>None\<close> for a falsy result).
\<close>

definition updateTradedVolume ::
  "venue_error + trade list option \<Rightarrow> strategy_state \<Rightarrow> strategy_state" where
  "updateTradedVolume fetched st =
     (case fetched of
        Inl err \<Rightarrow> st
      | Inr None \<Rightarrow> st
      | Inr (Some trades) \<Rightarrow>
          if trades = [] then st
          else
            (let watermark = (case lastTradeTimestamp st of None \<Rightarrow> 0 | Some ts \<Rightarrow> ts);
                 (newVolume, latestTimestamp) = trades_loop trades watermark 0 watermark
             in if 0 < newVolume
                then st\<lparr>totalTradedBaseVolume := totalTradedBaseVolume st + newVolume,
                        lastTradeTimestamp := Some (latestTimestamp + 1)\<rparr>
                else st))"

subsection \<open>manageOrder\<close>

text \<open>
  The \<^verbatim>\<open>catch\<close> block around the edit (source lines 432 to 458). It returns the state, the
  calls it made and the flag \<^verbatim>\<open>placeNewOrder\<close>. The inner cancel is in a
  \<^verbatim>\<open>try\<close>/\<^verbatim>\<open>catch\<close>/\<^verbatim>\<open>finally\<close> of its own, so its answer changes nothing.
\<close>

definition onEditError ::
  "order_answers \<Rightarrow> side \<Rightarrow> string \<Rightarrow> venue_error \<Rightarrow> strategy_state
   \<Rightarrow> strategy_state \<times> order_call list \<times> bool" where
  "onEditError answers sd orderId err st =
     (if isExchangeError err \<and> includes_str (errorMessage err) ''-5027'' then (st, [], False)
      else if isOrderNotFound err \<or> includes_str (errorMessage err) ''Unknown order''
      then (setTrackedOrderId sd None st, [], True)
      else
        (case cancelAfterEditErrorAnswer answers of
           Inl cancelError \<Rightarrow> (setTrackedOrderId sd None st, [CancelOrder orderId], True)
         | Inr done \<Rightarrow> (setTrackedOrderId sd None st, [CancelOrder orderId], True)))"

text \<open>
  The \<^verbatim>\<open>try\<close> block of the branch \<^verbatim>\<open>if (shouldPlace)\<close> (source lines 403 to 431) with its
  \<^verbatim>\<open>catch\<close>. \<open>hasEditOrder\<close> is \<^verbatim>\<open>exchange.has?.['editOrder']\<close>.
\<close>

definition editExistingOrder ::
  "bool \<Rightarrow> order_answers \<Rightarrow> side \<Rightarrow> string \<Rightarrow> real \<Rightarrow> real \<Rightarrow> strategy_state
   \<Rightarrow> strategy_state \<times> order_call list \<times> bool" where
  "editExistingOrder hasEditOrder answers sd orderId targetAmount targetPrice st =
     (if hasEditOrder then
        (case editAnswer answers of
           Inr edited \<Rightarrow> (st, [EditOrder orderId sd targetAmount targetPrice], False)
         | Inl err \<Rightarrow>
             (let (st', calls, placeNewOrder) = onEditError answers sd orderId err st
              in (st', EditOrder orderId sd targetAmount targetPrice # calls, placeNewOrder)))
      else
        (case cancelAnswer answers of
           Inr cancelled \<Rightarrow> (setTrackedOrderId sd None st, [CancelOrder orderId], True)
         | Inl err \<Rightarrow>
             (let (st', calls, placeNewOrder) = onEditError answers sd orderId err st
              in (st', CancelOrder orderId # calls, placeNewOrder))))"

text \<open>
  The branch \<^verbatim>\<open>else\<close> of \<^verbatim>\<open>if (shouldPlace)\<close> (source lines 459 to 473): cancel, and clear
  the id in the \<^verbatim>\<open>finally\<close> whatever the cancel did.
\<close>

definition cancelExistingOrder ::
  "order_answers \<Rightarrow> side \<Rightarrow> string \<Rightarrow> strategy_state \<Rightarrow> strategy_state \<times> order_call list \<times> bool" where
  "cancelExistingOrder answers sd orderId st =
     (case cancelAnswer answers of
        Inl cancelError \<Rightarrow> (setTrackedOrderId sd None st, [CancelOrder orderId], False)
      | Inr done \<Rightarrow> (setTrackedOrderId sd None st, [CancelOrder orderId], False))"

text \<open>The last statement of \<^verbatim>\<open>manageOrder\<close> (source lines 480 to 511).\<close>

definition placeNewOrderIfNeeded ::
  "market_precision \<Rightarrow> order_answers \<Rightarrow> side \<Rightarrow> bool \<Rightarrow> bool \<Rightarrow> real \<Rightarrow> real \<Rightarrow> strategy_state
   \<Rightarrow> strategy_state \<times> order_call list" where
  "placeNewOrderIfNeeded prec answers sd placeNewOrder shouldPlace targetAmount targetPrice st =
     (if placeNewOrder \<and> shouldPlace \<and> minAmount prec \<le> targetAmount then
        (case createAnswer answers of
           Inr (Some newId) \<Rightarrow>
             if newId = [] then (setTrackedOrderId sd None st, [CreateOrder sd targetAmount targetPrice])
             else (setTrackedOrderId sd (Some newId) st, [CreateOrder sd targetAmount targetPrice])
         | Inr None \<Rightarrow> (setTrackedOrderId sd None st, [CreateOrder sd targetAmount targetPrice])
         | Inl err \<Rightarrow> (setTrackedOrderId sd None st, [CreateOrder sd targetAmount targetPrice]))
      else if placeNewOrder then (setTrackedOrderId sd None st, [])
      else (st, []))"

text \<open>
  \<^verbatim>\<open>if (orderId)\<close> is a truthiness test: \<^verbatim>\<open>null\<close> and the empty string both count as no
  tracked order.
\<close>

definition manageOrder ::
  "market_precision \<Rightarrow> bool \<Rightarrow> order_answers \<Rightarrow> side \<Rightarrow> bool \<Rightarrow> real \<Rightarrow> real \<Rightarrow> strategy_state
   \<Rightarrow> strategy_state \<times> order_call list" where
  "manageOrder prec hasEditOrder answers sd shouldPlace targetAmount targetPrice st =
     (case trackedOrderId sd st of
        None \<Rightarrow> placeNewOrderIfNeeded prec answers sd True shouldPlace targetAmount targetPrice st
      | Some orderId \<Rightarrow>
          if orderId = [] then
            placeNewOrderIfNeeded prec answers sd True shouldPlace targetAmount targetPrice st
          else
            (let belowMin = targetAmount < minAmount prec;
                 shouldPlace' = (if belowMin then False else shouldPlace);
                 targetAmount' = (if belowMin then 0 else targetAmount);
                 (st1, calls1, placeNewOrder) =
                   (if shouldPlace'
                    then editExistingOrder hasEditOrder answers sd orderId targetAmount' targetPrice st
                    else cancelExistingOrder answers sd orderId st);
                 (st2, calls2) =
                   placeNewOrderIfNeeded prec answers sd placeNewOrder shouldPlace' targetAmount'
                     targetPrice st1
             in (st2, calls1 @ calls2)))"

subsection \<open>cancelStaleOrdersIfNeeded\<close>

text \<open>
  Each id is set to \<^verbatim>\<open>null\<close> before its cancel is awaited, and the \<^verbatim>\<open>.catch\<close> handler of
  each cancel only logs: the two answers are arguments of the model, and no branch reads
  them.
\<close>

definition cancelStaleOrdersIfNeeded ::
  "venue_error + bool \<Rightarrow> venue_error + bool \<Rightarrow> strategy_state \<Rightarrow> strategy_state \<times> order_call list" where
  "cancelStaleOrdersIfNeeded buyCancelAnswer sellCancelAnswer st =
     (let buyId = currentBuyOrderId st;
          sellId = currentSellOrderId st;
          (st1, calls1) =
            (case buyId of
               None \<Rightarrow> (st, [])
             | Some b \<Rightarrow> if b = [] then (st, []) else (st\<lparr>currentBuyOrderId := None\<rparr>, [CancelOrder b]));
          (st2, calls2) =
            (case sellId of
               None \<Rightarrow> (st1, [])
             | Some s \<Rightarrow> if s = [] then (st1, []) else (st1\<lparr>currentSellOrderId := None\<rparr>, [CancelOrder s]))
      in (st2, calls1 @ calls2))"

subsection \<open>runCycle: the target prices\<close>

definition targetSpreadAbs :: "config \<Rightarrow> real \<Rightarrow> real" where
  \<comment> \<open>\<^verbatim>\<open>Math.max(minSpread ?? 0, Math.min(maxSpread ?? Infinity, depthMidPrice * targetSpreadPct))\<close>\<close>
  "targetSpreadAbs cfg depthMidPrice =
     max (case minSpread cfg of None \<Rightarrow> 0 | Some lo \<Rightarrow> lo)
       (case maxSpread cfg of
          None \<Rightarrow> depthMidPrice * targetSpreadPct cfg
        | Some hi \<Rightarrow> min hi (depthMidPrice * targetSpreadPct cfg))"

definition inventoryRatio :: "real \<Rightarrow> real \<Rightarrow> real" where
  \<comment> \<open>\<^verbatim>\<open>Math.max(-1, Math.min(1, currentPositionSize / positionLimit))\<close>\<close>
  "inventoryRatio positionSize limit = max (- 1) (min 1 (positionSize / limit))"

text \<open>
  The target prices before tick alignment (source lines 186 to 218): the baseline around
  the depth mid price, moved by the inventory skew when the skew is enabled.
\<close>

definition skewedTargetPrices :: "config \<Rightarrow> real \<Rightarrow> real \<Rightarrow> real \<times> real" where
  "skewedTargetPrices cfg depthMidPrice positionSize =
     (let spread = targetSpreadAbs cfg depthMidPrice;
          initialTargetBuyPrice = depthMidPrice - spread / 2;
          initialTargetSellPrice = depthMidPrice + spread / 2;
          limit = (case positionLimit cfg of None \<Rightarrow> 0 | Some l \<Rightarrow> l)
      in if 0 < inventorySkewIntensity cfg \<and> 0 < limit then
           (let ratio = inventoryRatio positionSize limit;
                skewAdjustment = spread * ratio * inventorySkewIntensity cfg
            in (initialTargetBuyPrice - skewAdjustment, initialTargetSellPrice - skewAdjustment))
         else (initialTargetBuyPrice, initialTargetSellPrice))"

text \<open>
  Tick alignment and the correction of crossed prices (source lines 223 to 241). \<open>None\<close>
  is the branch that logs the error, calls \<^verbatim>\<open>cancelStaleOrdersIfNeeded\<close> and returns.
  \<^verbatim>\<open>&& this.tickSize\<close> is a truthiness test: the tick size is defined and not zero.
\<close>

definition finalTargetPrices :: "real option \<Rightarrow> real \<times> real \<Rightarrow> (real \<times> real) option" where
  "finalTargetPrices tick targets =
     (let targetBuyPrice = adjustPriceToTickSize (fst targets) tick;
          targetSellPrice = adjustPriceToTickSize (snd targets) tick
      in case tick of
           None \<Rightarrow> Some (targetBuyPrice, targetSellPrice)
         | Some t \<Rightarrow>
             if targetSellPrice \<le> targetBuyPrice \<and> t \<noteq> 0 then
               (let loweredBuyPrice = adjustPriceToTickSize (targetBuyPrice - t) tick
                in if targetSellPrice \<le> loweredBuyPrice then
                     (let raisedSellPrice = adjustPriceToTickSize (targetSellPrice + t) tick
                      in if raisedSellPrice \<le> loweredBuyPrice then None
                         else Some (loweredBuyPrice, raisedSellPrice))
                   else Some (loweredBuyPrice, targetSellPrice))
             else Some (targetBuyPrice, targetSellPrice))"

subsection \<open>runCycle: the amounts and the gates\<close>

text \<open>
  \<^verbatim>\<open>Math.min(1.0, volumeNear / liquidityVolumeThreshold)\<close>. With a threshold of zero the
  JavaScript quotient is \<^verbatim>\<open>Infinity\<close> for a positive volume (the minimum is then 1) and
  \<^verbatim>\<open>NaN\<close> or \<^verbatim>\<open>-Infinity\<close> otherwise, which no real number stands for: the model
  answers \<open>None\<close> there instead of HOL's \<open>x / 0 = 0\<close>.
\<close>

definition liquidityFactor :: "real \<Rightarrow> real \<Rightarrow> real option" where
  "liquidityFactor volumeNear threshold =
     (if threshold = 0 then (if 0 < volumeNear then Some 1 else None)
      else Some (min 1 (volumeNear / threshold)))"

record quote_plan =
  placeBuy :: bool
  buyAmount :: real
  buyPrice :: real
  placeSell :: bool
  sellAmount :: real
  sellPrice :: real

text \<open>The hard position limit (source lines 271 to 287).\<close>

definition positionLimitGate ::
  "real \<Rightarrow> real \<Rightarrow> real \<Rightarrow> real \<Rightarrow> bool \<times> real \<times> bool \<times> real" where
  "positionLimitGate limit positionSize buyAmount0 sellAmount0 =
     (if 0 < limit then
        (if 0 < positionSize \<and> limit \<le> \<bar>positionSize\<bar>
         then (False, buyAmount0, True, max sellAmount0 \<bar>positionSize\<bar>)
         else if positionSize < 0 \<and> limit \<le> \<bar>positionSize\<bar>
         then (True, max buyAmount0 \<bar>positionSize\<bar>, False, sellAmount0)
         else (True, buyAmount0, True, sellAmount0))
      else (True, buyAmount0, True, sellAmount0))"

text \<open>The minimum notional value test of one side (source lines 296 to 305).\<close>

definition notionalGate :: "real \<Rightarrow> bool \<Rightarrow> real \<Rightarrow> real \<Rightarrow> bool \<times> real" where
  "notionalGate minNotional place amt price =
     (if place \<and> 0 < amt \<and> amt * price < minNotional then (False, 0) else (place, amt))"

text \<open>The balance test of the buy side (source lines 308 to 313).\<close>

definition balanceGate :: "real \<Rightarrow> bool \<Rightarrow> real \<Rightarrow> real \<Rightarrow> bool \<times> real" where
  "balanceGate freeBalance place amt price =
     (let estimatedBuyCost = amt * price
      in if place \<and> freeBalance < estimatedBuyCost \<and> 0 < estimatedBuyCost then (False, 0)
         else (place, amt))"

text \<open>
  The position test of the sell side (source lines 315 to 333);
  \<^verbatim>\<open>this.stepSize ?? 0.00000001\<close> is the tolerance.
\<close>

definition sellPositionGate ::
  "market_precision \<Rightarrow> real \<Rightarrow> real \<Rightarrow> bool \<Rightarrow> real \<Rightarrow> real \<Rightarrow> bool \<times> real" where
  "sellPositionGate prec minNotional positionSize place amt price =
     (if place \<and> 0 < amt \<and> 0 \<le> positionSize then
        (let maxSellable =
               positionSize + (case stepSize prec of None \<Rightarrow> 1 / 100000000 | Some s \<Rightarrow> s)
         in if maxSellable < amt then
              (let clamped = adjustAmountToStepSize (max 0 positionSize) (stepSize prec)
               in if clamped < minAmount prec \<or> clamped * price < minNotional then (False, 0)
                  else (place, clamped))
            else (place, amt))
      else (place, amt))"

text \<open>
  Source lines 246 to 333, reached with a defined tick size \<open>t\<close> and the final prices:
  \<open>None\<close> only where \<open>liquidityFactor\<close> is.
\<close>

definition planAmounts ::
  "config \<Rightarrow> market_precision \<Rightarrow> order_book \<Rightarrow> real \<Rightarrow> real \<Rightarrow> real \<times> real \<Rightarrow> quote_plan option" where
  "planAmounts cfg prec ob freeBalance positionSize prices =
     (let targetBuyPrice = fst prices;
          targetSellPrice = snd prices;
          rangeTicks = (case rangeTicksForLiquidity cfg of None \<Rightarrow> 30 | Some r \<Rightarrow> r);
          volumeNearBuy = getVolumeNearPriceTicks (bids ob) targetBuyPrice rangeTicks (tickSize prec);
          volumeNearSell = getVolumeNearPriceTicks (asks ob) targetSellPrice rangeTicks (tickSize prec)
      in case (liquidityFactor volumeNearBuy (liquidityVolumeThreshold cfg),
               liquidityFactor volumeNearSell (liquidityVolumeThreshold cfg)) of
           (Some buyFactor, Some sellFactor) \<Rightarrow>
             (let limit = (case positionLimit cfg of None \<Rightarrow> 0 | Some l \<Rightarrow> l);
                  (placeBuy1, buyAmount1, placeSell1, sellAmount1) =
                    positionLimitGate limit positionSize (baseAmount cfg * buyFactor)
                      (baseAmount cfg * sellFactor);
                  buyAmount2 = adjustAmountToStepSize buyAmount1 (stepSize prec);
                  sellAmount2 = adjustAmountToStepSize sellAmount1 (stepSize prec);
                  minNotional = (case minNotionalValue cfg of None \<Rightarrow> 10 | Some m \<Rightarrow> m);
                  (placeBuy3, buyAmount3) = notionalGate minNotional placeBuy1 buyAmount2 targetBuyPrice;
                  (placeSell3, sellAmount3) =
                    notionalGate minNotional placeSell1 sellAmount2 targetSellPrice;
                  (placeBuy4, buyAmount4) = balanceGate freeBalance placeBuy3 buyAmount3 targetBuyPrice;
                  (placeSell4, sellAmount4) =
                    sellPositionGate prec minNotional positionSize placeSell3 sellAmount3 targetSellPrice
              in Some \<lparr>placeBuy = placeBuy4, buyAmount = buyAmount4, buyPrice = targetBuyPrice,
                       placeSell = placeSell4, sellAmount = sellAmount4, sellPrice = targetSellPrice\<rparr>)
         | _ \<Rightarrow> None)"

subsection \<open>runCycle\<close>

text \<open>
  The venue's answers during one cycle, one per call site. The two \<^verbatim>\<open>manageOrder\<close> calls
  run under \<^verbatim>\<open>Promise.allSettled\<close>; they write different fields of the state, so the
  model runs the buy side first and the sell side on its result, and lists the calls of
  the buy side first.
\<close>

record cycle_answers =
  buyAnswers :: order_answers
  sellAnswers :: order_answers
  staleBuyCancelAnswer :: "venue_error + bool"
  staleSellCancelAnswer :: "venue_error + bool"
  tradesAnswer :: "venue_error + trade list option"

datatype cycle_outcome = Completed | Thrown

definition skipCycle ::
  "cycle_answers \<Rightarrow> strategy_state \<Rightarrow> (strategy_state \<times> order_call list \<times> cycle_outcome) option" where
  \<comment> \<open>\<^verbatim>\<open>await this.cancelStaleOrdersIfNeeded(); return;\<close>\<close>
  "skipCycle answers st =
     (let (st', calls) =
            cancelStaleOrdersIfNeeded (staleBuyCancelAnswer answers) (staleSellCancelAnswer answers) st
      in Some (st', calls, Completed))"

text \<open>
  The \<^verbatim>\<open>catch\<close> block of \<^verbatim>\<open>runCycle\<close>. An authentication error is thrown again. For a
  rate limit error the block reads \<^verbatim>\<open>this.exchange.rateLimit\<close>; the class has no field
  \<^verbatim>\<open>exchange\<close>, so that read throws a \<^verbatim>\<open>TypeError\<close> out of the block. Otherwise the block
  ends with the stale order cleanup.
\<close>

definition onCycleError ::
  "cycle_answers \<Rightarrow> venue_error \<Rightarrow> strategy_state
   \<Rightarrow> (strategy_state \<times> order_call list \<times> cycle_outcome) option" where
  "onCycleError answers err st =
     (if isAuthenticationError err then Some (st, [], Thrown)
      else if isExchangeNotAvailable err then skipCycle answers st
      else if isRateLimitExceeded err then Some (st, [], Thrown)
      else skipCycle answers st)"

text \<open>
  One cycle. \<open>fetched\<close> is the outcome of the four concurrent fetches: an error one of
  them threw, or the snapshot. Nothing after the fetches throws: \<^verbatim>\<open>Promise.allSettled\<close>
  absorbs the two \<^verbatim>\<open>manageOrder\<close> calls and \<^verbatim>\<open>updateTradedVolume\<close> catches its own
  errors. The result is \<open>None\<close> only where \<open>planAmounts\<close> is.
\<close>

definition runCycle ::
  "config \<Rightarrow> market_precision \<Rightarrow> bool \<Rightarrow> cycle_answers \<Rightarrow> venue_error + market_snapshot
   \<Rightarrow> strategy_state \<Rightarrow> (strategy_state \<times> order_call list \<times> cycle_outcome) option" where
  "runCycle cfg prec hasEditOrder answers fetched st =
     (case fetched of
        Inl err \<Rightarrow> onCycleError answers err st
      | Inr snapshot \<Rightarrow>
          (case snapshotOrderBook snapshot of
             None \<Rightarrow> skipCycle answers st
           | Some ob \<Rightarrow>
               if bestPrice (bids ob) = None \<or> bestPrice (asks ob) = None then skipCycle answers st
               else
                 (case calculateDepthMidPrice (Some ob) (orderBookDepthLevels cfg) of
                    None \<Rightarrow> skipCycle answers st
                  | Some depthMidPrice \<Rightarrow>
                      (case finalTargetPrices (tickSize prec)
                              (skewedTargetPrices cfg depthMidPrice (snapshotPositionSize snapshot)) of
                         None \<Rightarrow> skipCycle answers st
                       | Some prices \<Rightarrow>
                           if tickSize prec = None then skipCycle answers st
                           else
                             (case planAmounts cfg prec ob (snapshotBalance snapshot)
                                     (snapshotPositionSize snapshot) prices of
                                None \<Rightarrow> None
                              | Some plan \<Rightarrow>
                                  (let (st1, buyCalls) =
                                         manageOrder prec hasEditOrder (buyAnswers answers) Buy
                                           (placeBuy plan) (buyAmount plan) (buyPrice plan) st;
                                       (st2, sellCalls) =
                                         manageOrder prec hasEditOrder (sellAnswers answers) Sell
                                           (placeSell plan) (sellAmount plan) (sellPrice plan) st1;
                                       st3 = updateTradedVolume (tradesAnswer answers) st2
                                   in Some (st3, buyCalls @ sellCalls, Completed)))))))"

section \<open>Vocabulary of the properties\<close>

subsection \<open>Weighted averages and the specification's reading of a VWAP\<close>

definition positive_sizes :: "order_book_side \<Rightarrow> order_book_side" where
  "positive_sizes es = filter (\<lambda>(price, volume). 0 < volume) es"

definition weighted_sum :: "order_book_side \<Rightarrow> real" where
  "weighted_sum es = (\<Sum>(price, volume)\<leftarrow>es. price * volume)"

definition total_volume :: "order_book_side \<Rightarrow> real" where
  "total_volume es = (\<Sum>(price, volume)\<leftarrow>es. volume)"

text \<open>
  The specification describes the VWAP as the weighted average over the first \<open>depth\<close>
  valid entries of a side, an entry being valid when its price and its size are positive,
  and as absent when the total volume is zero or \<open>depth \<le> 0\<close>. The sentence can be read
  in two ways, and both are written down: the first \<open>depth\<close> entries of the valid ones,
  and the valid ones of the first \<open>depth\<close> entries.
\<close>

definition spec_vwap_first_valid :: "order_book_side \<Rightarrow> real \<Rightarrow> real option" where
  "spec_vwap_first_valid entries depth =
     (if depth \<le> 0 then None
      else
        (let es = take (nat \<lceil>depth\<rceil>) (filter (\<lambda>(price, volume). 0 < price \<and> 0 < volume) entries)
         in if total_volume es = 0 then None else Some (weighted_sum es / total_volume es)))"

definition spec_vwap_valid_of_first :: "order_book_side \<Rightarrow> real \<Rightarrow> real option" where
  "spec_vwap_valid_of_first entries depth =
     (if depth \<le> 0 then None
      else
        (let es = filter (\<lambda>(price, volume). 0 < price \<and> 0 < volume) (take (nat \<lceil>depth\<rceil>) entries)
         in if total_volume es = 0 then None else Some (weighted_sum es / total_volume es)))"

subsection \<open>Valid order books\<close>






subsection \<open>Order calls\<close>

fun is_create :: "order_call \<Rightarrow> bool" where
  "is_create (CreateOrder sd a p) = True"
| "is_create (EditOrder i sd a p) = False"
| "is_create (CancelOrder i) = False"

fun is_cancel :: "order_call \<Rightarrow> bool" where
  "is_cancel (CancelOrder i) = True"
| "is_cancel (EditOrder i sd a p) = False"
| "is_cancel (CreateOrder sd a p) = False"

text \<open>A call that carries a price carries the buy price \<open>b\<close> or the sell price \<open>s\<close> of its side.\<close>

fun quoted_at :: "real \<Rightarrow> real \<Rightarrow> order_call \<Rightarrow> bool" where
  "quoted_at b s (CancelOrder i) = True"
| "quoted_at b s (EditOrder i sd a p) = (p = (case sd of Buy \<Rightarrow> b | Sell \<Rightarrow> s))"
| "quoted_at b s (CreateOrder sd a p) = (p = (case sd of Buy \<Rightarrow> b | Sell \<Rightarrow> s))"

definition side_price :: "side \<Rightarrow> real \<Rightarrow> order_call \<Rightarrow> bool" where
  "side_price sd p c =
     (case c of
        CancelOrder i \<Rightarrow> True
      | EditOrder i sd' a p' \<Rightarrow> sd' = sd \<and> p' = p
      | CreateOrder sd' a p' \<Rightarrow> sd' = sd \<and> p' = p)"

subsection \<open>Tracked ids and the volume watermark\<close>

text \<open>
  The class stores an order id only after the test \<^verbatim>\<open>newOrder && newOrder.id\<close>, so a stored
  id is \<^verbatim>\<open>null\<close> or a string that is not empty. The states the program reaches all
  satisfy this (\<open>runCycle_keeps_ids_wellformed\<close> below).
\<close>

definition ids_wellformed :: "strategy_state \<Rightarrow> bool" where
  "ids_wellformed st = (currentBuyOrderId st \<noteq> Some [] \<and> currentSellOrderId st \<noteq> Some [])"

definition priorWatermark :: "strategy_state \<Rightarrow> real" where
  \<comment> \<open>\<^verbatim>\<open>this.lastTradeTimestamp ?? 0\<close> before the update\<close>
  "priorWatermark st = (case lastTradeTimestamp st of None \<Rightarrow> 0 | Some ts \<Rightarrow> ts)"

definition volumeAfter :: "real \<Rightarrow> trade list \<Rightarrow> real" where
  "volumeAfter watermark trades =
     (\<Sum>t\<leftarrow>filter (\<lambda>t. watermark < tradeTimestamp t) trades. tradeAmount t)"

section \<open>Concrete inputs\<close>

text \<open>
  The example book of the specification. A decimal literal of the program is the binary64
  value nearest to it.
\<close>

definition example_book :: order_book where
  "example_book =
     \<lparr>bids = Some [(100, 5), (binary64 99.9, 5)],
      asks = Some [(binary64 100.1, 5), (binary64 100.2, 5)]\<rparr>"

text \<open>The best ask of the example book, and the depth mid price the program computes on it.\<close>

definition example_best_ask :: real where
  "example_best_ask = binary64 100.1"

definition example_depth_mid :: real where
  "example_depth_mid = binary64 100.05000000000001"


definition resting_state :: strategy_state where
  "resting_state =
     \<lparr>currentBuyOrderId = Some ''b-17'', currentSellOrderId = Some ''s-18'',
      totalTradedBaseVolume = 3 / 2, lastTradeTimestamp = Some 1000\<rparr>"

definition network_down :: venue_error where
  "network_down =
     \<lparr>isExchangeError = False, isOrderNotFound = False, isAuthenticationError = False,
      isExchangeNotAvailable = True, isRateLimitExceeded = False,
      errorMessage = ''ECONNRESET''\<rparr>"

text \<open>An edit that the venue refuses for a reason the code does not recognise.\<close>

definition failing_answers :: order_answers where
  "failing_answers =
     \<lparr>editAnswer = Inl \<lparr>isExchangeError = True, isOrderNotFound = False,
                         isAuthenticationError = False, isExchangeNotAvailable = False,
                         isRateLimitExceeded = False, errorMessage = ''Filter failure''\<rparr>,
      cancelAnswer = Inr False,
      cancelAfterEditErrorAnswer = Inr False,
      createAnswer = Inr (Some ''b-19'')\<rparr>"

definition quiet_answers :: cycle_answers where
  "quiet_answers =
     \<lparr>buyAnswers = failing_answers, sellAnswers = failing_answers,
      staleBuyCancelAnswer = Inl network_down, staleSellCancelAnswer = Inr True,
      tradesAnswer = Inr (Some [])\<rparr>"

definition btc_precision :: market_precision where
  "btc_precision = \<lparr>tickSize = Some (1 / 10), stepSize = Some (1 / 1000), minAmount = 1 / 1000\<rparr>"

definition unit_tick_precision :: market_precision where
  "unit_tick_precision = \<lparr>tickSize = Some 1, stepSize = Some (1 / 1000), minAmount = 1 / 1000\<rparr>"

definition example_config :: config where
  "example_config =
     \<lparr>orderBookDepthLevels = 2, targetSpreadPct = 1 / 10, minSpread = Some 1, maxSpread = Some 50,
      inventorySkewIntensity = 1 / 2, positionLimit = Some 1, baseAmount = 1 / 100,
      liquidityVolumeThreshold = 1 / 10, rangeTicksForLiquidity = Some 30,
      minNotionalValue = Some 10\<rparr>"

definition tight_config :: config where
  "tight_config =
     \<lparr>orderBookDepthLevels = 2, targetSpreadPct = 1 / 2000, minSpread = Some (1 / 100),
      maxSpread = Some 50, inventorySkewIntensity = 0, positionLimit = Some 1, baseAmount = 1,
      liquidityVolumeThreshold = 1 / 10, rangeTicksForLiquidity = None,
      minNotionalValue = None\<rparr>"

text \<open>A configuration whose spread bounds are negative: the baseline prices are crossed.\<close>

definition inverted_config :: config where
  "inverted_config = tight_config\<lparr>minSpread := Some (- 5), maxSpread := Some (- 5)\<rparr>"

definition flat_snapshot :: market_snapshot where
  "flat_snapshot =
     \<lparr>snapshotOrderBook = Some example_book, snapshotBalance = 1000, snapshotPositionSize = 0\<rparr>"

section \<open>Properties of the rounding\<close>

lemma binade_lower:
  assumes "x \<noteq> 0"
  shows "2 powi (binade x) \<le> \<bar>x\<bar>"
proof (cases "1 \<le> \<bar>x\<bar>")
  case True
  define n where "n = \<lfloor>\<bar>x\<bar>\<rfloor>"
  from True have n: "0 < n" by (simp add: n_def)
  then have len: "1 \<le> bitlen n"
    using bitlen_eq_zero_iff [of n] bitlen_nonneg [of n] by linarith
  from bitlen_bounds [OF n] have "(2 :: int) ^ nat (bitlen n - 1) \<le> n" ..
  then have "real_of_int (2 ^ nat (bitlen n - 1)) \<le> real_of_int n"
    by (simp only: of_int_le_iff)
  also have "real_of_int n \<le> \<bar>x\<bar>"
    by (simp add: n_def)
  finally have "(2 :: real) ^ nat (bitlen n - 1) \<le> \<bar>x\<bar>" by simp
  moreover have "(2 :: real) powi (bitlen n - 1) = 2 ^ nat (bitlen n - 1)"
    using len by (simp add: power_int_def)
  ultimately show ?thesis
    using True by (simp add: binade_def n_def)
next
  case False
  with assms have small: "0 < \<bar>x\<bar>" "\<bar>x\<bar> < 1" by simp_all
  define m where "m = \<lceil>1 / \<bar>x\<bar>\<rceil> - 1"
  from small have "1 < 1 / \<bar>x\<bar>" by simp
  then have "1 < \<lceil>1 / \<bar>x\<bar>\<rceil>" by (simp add: less_ceiling_iff)
  then have m: "0 < m" by (simp add: m_def)
  then have len: "1 \<le> bitlen m"
    using bitlen_eq_zero_iff [of m] bitlen_nonneg [of m] by linarith
  from bitlen_bounds [OF m] have "m < 2 ^ nat (bitlen m)" ..
  then have "\<lceil>1 / \<bar>x\<bar>\<rceil> \<le> 2 ^ nat (bitlen m)" by (simp add: m_def)
  then have "1 / \<bar>x\<bar> \<le> real_of_int (2 ^ nat (bitlen m))"
    by (simp only: ceiling_le_iff)
  then have "1 / \<bar>x\<bar> \<le> 2 ^ nat (bitlen m)" by simp
  then have "1 \<le> 2 ^ nat (bitlen m) * \<bar>x\<bar>"
    using small by (simp add: pos_divide_le_eq)
  then have "1 / 2 ^ nat (bitlen m) \<le> \<bar>x\<bar>"
    by (simp add: pos_divide_le_eq mult.commute)
  moreover have "(2 :: real) powi (- bitlen m) = 1 / 2 ^ nat (bitlen m)"
    using len by (simp add: power_int_def field_simps)
  ultimately show ?thesis
    using False by (simp add: binade_def m_def)
qed

lemma round_half_even_error: "\<bar>of_int (round_half_even y) - y\<bar> \<le> 1 / 2"
proof -
  have "of_int \<lfloor>y\<rfloor> \<le> y" "y < of_int \<lfloor>y\<rfloor> + 1" by linarith+
  then show ?thesis
    by (auto simp: round_half_even_def Let_def)
qed

lemma round_half_even_nonneg: "0 \<le> y \<Longrightarrow> 0 \<le> round_half_even y"
  by (auto simp: round_half_even_def Let_def)

text \<open>
  The rounding error is at most half a quantum: \<open>\<bar>x\<bar>\<close> times the unit roundoff for a
  normal \<open>x\<close>, the smallest normal number times the unit roundoff otherwise.
\<close>

lemma binary64_error:
  "\<bar>binary64 x - x\<bar> \<le> max (\<bar>x\<bar> * unit_roundoff) (min_normal * unit_roundoff)"
proof (cases "x = 0")
  case True
  then show ?thesis by (simp add: binary64_def unit_roundoff_def min_normal_def)
next
  case False
  define e where "e = max (binade x) binary64_emin"
  define q :: real where "q = 2 powi (e - 52)"
  have q: "0 < q" by (simp add: q_def)
  have "binary64 x - x = (of_int (round_half_even (x / q)) - x / q) * q"
    using False q by (simp add: binary64_def e_def q_def Let_def algebra_simps)
  then have "\<bar>binary64 x - x\<bar> = \<bar>of_int (round_half_even (x / q)) - x / q\<bar> * q"
    using q by (simp add: abs_mult)
  also have "\<dots> \<le> 1 / 2 * q"
    using round_half_even_error [of "x / q"] q by (intro mult_right_mono) simp_all
  also have "1 / 2 * q = 2 powi e * unit_roundoff"
  proof -
    have "(2 :: real) powi (e - 52) = 2 powi (e + - 53) * 2 powi 1"
      by (subst power_int_add [symmetric]) simp_all
    also have "(2 :: real) powi (e + - 53) = 2 powi e * 2 powi (- 53)"
      by (rule power_int_add) simp
    finally show ?thesis
      unfolding q_def unit_roundoff_def by (simp only: power_int_1_right)
  qed
  finally have bound: "\<bar>binary64 x - x\<bar> \<le> 2 powi e * unit_roundoff" .
  have u: "0 \<le> unit_roundoff" by (simp add: unit_roundoff_def)
  show ?thesis
  proof (cases "binary64_emin \<le> binade x")
    case True
    then have "e = binade x" by (simp add: e_def)
    then have "2 powi e * unit_roundoff \<le> \<bar>x\<bar> * unit_roundoff"
      using binade_lower [OF False] u by (intro mult_right_mono) simp_all
    with bound show ?thesis by simp
  next
    case False
    then have "e = binary64_emin" by (simp add: e_def)
    with bound show ?thesis by (simp add: min_normal_def)
  qed
qed

lemma binary64_zero: "binary64 0 = 0"
  by (simp add: binary64_def)

lemma binary64_nonneg: "0 \<le> x \<Longrightarrow> 0 \<le> binary64 x"
proof -
  assume "0 \<le> x"
  then have "0 \<le> round_half_even (x / 2 powi (max (binade x) binary64_emin - 52))"
    by (intro round_half_even_nonneg) simp
  then show ?thesis
    by (simp add: binary64_def Let_def)
qed

lemma unit_roundoff_bounds: "0 < unit_roundoff" "unit_roundoff \<le> 1"
proof -
  show "0 < unit_roundoff" by (simp add: unit_roundoff_def)
  have "unit_roundoff = 1 / 2 ^ 53" by (simp add: unit_roundoff_def power_int_def field_simps)
  also have "\<dots> \<le> 1" by simp
  finally show "unit_roundoff \<le> 1" .
qed

lemma min_normal_bounds: "0 < min_normal" "min_normal \<le> 1 / 4"
proof -
  show "0 < min_normal" by (simp add: min_normal_def)
  have "min_normal = 1 / 2 ^ 1022"
    unfolding min_normal_def binary64_emin_def by (simp only: power_int_def) (simp add: field_simps)
  also have "\<dots> \<le> 1 / 2 ^ 2"
    by (intro divide_left_mono power_increasing) simp_all
  finally show "min_normal \<le> 1 / 4" by simp
qed

lemma binary64_upper_normal:
  assumes "min_normal \<le> x"
  shows "binary64 x \<le> x * (1 + unit_roundoff)"
proof -
  have pos: "0 < x" using assms min_normal_bounds(1) by linarith
  have "min_normal * unit_roundoff \<le> x * unit_roundoff"
    using assms unit_roundoff_bounds(1) by (intro mult_right_mono) simp_all
  then have "max (\<bar>x\<bar> * unit_roundoff) (min_normal * unit_roundoff) = x * unit_roundoff"
    using pos by simp
  with binary64_error [of x] have "binary64 x - x \<le> x * unit_roundoff" by linarith
  then show ?thesis by (simp add: algebra_simps)
qed

lemma binary64_below_one:
  assumes "0 \<le> x" and "x < min_normal"
  shows "binary64 x < 1"
proof -
  from assms min_normal_bounds(2) have x: "\<bar>x\<bar> < 1 / 4" by simp
  have "\<bar>x\<bar> * unit_roundoff \<le> \<bar>x\<bar> * 1"
    using unit_roundoff_bounds(2) by (intro mult_left_mono) simp_all
  moreover have "min_normal * unit_roundoff \<le> min_normal * 1"
    using unit_roundoff_bounds(2) min_normal_bounds(1) by (intro mult_left_mono) simp_all
  ultimately have "max (\<bar>x\<bar> * unit_roundoff) (min_normal * unit_roundoff) \<le> 1 / 4"
    using x min_normal_bounds(2) by simp
  with binary64_error [of x] x show ?thesis by linarith
qed






















text \<open>Magnitudes up to \<open>2 ^ 10\<close>, those of the examples below, are far from overflow.\<close>

lemma binary64_overflow_lower: "2 ^ 1023 \<le> binary64_overflow"
proof -
  have "(2 :: real) powi 970 \<le> 2 powi 1023"
    by (intro power_int_increasing) simp_all
  moreover have "(2 :: real) powi 1024 = 2 powi 1023 + 2 powi 1023"
  proof -
    have "(2 :: real) powi 1024 = 2 powi (1023 + 1)" by simp
    also have "\<dots> = 2 powi 1023 * 2 powi 1" by (rule power_int_add) simp
    finally show ?thesis by (simp only: power_int_1_right) 
  qed
  moreover have "(2 :: real) powi 1023 = 2 ^ 1023"
    by (simp only: power_int_def) simp
  ultimately show ?thesis
    unfolding binary64_overflow_def by linarith
qed

lemma in_binary64_range_small:
  assumes "\<bar>x\<bar> \<le> 2 ^ 10"
  shows "in_binary64_range x"
proof -
  have "(2 :: real) ^ 10 < 2 ^ 1023"
    by (rule power_strict_increasing) simp_all
  with assms binary64_overflow_lower show ?thesis
    unfolding in_binary64_range_def by linarith
qed

section \<open>Properties of utils.js\<close>

text \<open>
  C10. \<^verbatim>\<open>adjustPriceToTickSize\<close> and \<^verbatim>\<open>adjustAmountToStepSize\<close> have no failing branch:
  when the tick size (the step size) is undefined or not positive they return the price
  (the amount) they were given, and no division takes place.
\<close>

theorem degenerate_precision_is_pass_through:
  assumes "precision = None \<or> (\<exists>p. precision = Some p \<and> p \<le> 0)"
  shows "adjustPriceToTickSize price precision = price
         \<and> adjustAmountToStepSize amount precision = amount"
  using assms by (auto simp: adjustPriceToTickSize_def adjustAmountToStepSize_def)

text \<open>
  C10, at concrete inputs: an undefined, a zero and a negative precision each leave the
  price \<open>100.1\<close> and the amount \<open>0.15\<close> as they are.
\<close>

theorem degenerate_precision_is_pass_through_witness:
  "(adjustPriceToTickSize (1001 / 10) None = 1001 / 10
    \<and> adjustAmountToStepSize (3 / 20) None = 3 / 20)
   \<and> (adjustPriceToTickSize (1001 / 10) (Some 0) = 1001 / 10
    \<and> adjustAmountToStepSize (3 / 20) (Some 0) = 3 / 20)
   \<and> (adjustPriceToTickSize (1001 / 10) (Some (- 1)) = 1001 / 10
    \<and> adjustAmountToStepSize (3 / 20) (Some (- 1)) = 3 / 20)"
proof -
  have undefined_precision: "(None :: real option) = None \<or> (\<exists>p. None = Some p \<and> p \<le> 0)"
    by simp
  have zero_precision: "Some (0 :: real) = None \<or> (\<exists>p. Some (0 :: real) = Some p \<and> p \<le> 0)"
    by simp
  have negative_precision:
    "Some (- 1 :: real) = None \<or> (\<exists>p. Some (- 1 :: real) = Some p \<and> p \<le> 0)"
    by simp
  show ?thesis
    using degenerate_precision_is_pass_through [OF undefined_precision, of "1001 / 10" "3 / 20"]
      degenerate_precision_is_pass_through [OF zero_precision, of "1001 / 10" "3 / 20"]
      degenerate_precision_is_pass_through [OF negative_precision, of "1001 / 10" "3 / 20"]
    by blast
qed

text \<open>
  C8, as the specification states it, fails in both parts. The result is not always
  non-negative: the amount \<open>-0.5\<close> with step size \<open>1\<close> is aligned to \<open>-1\<close>. And the
  result can exceed the amount: in the binary64 arithmetic of the program the quotient
  \<open>1.7 / 0.1\<close> rounds up to \<open>17\<close>, and \<open>17 * 0.1\<close> rounds to \<open>1.7000000000000002\<close>,
  above \<open>1.7\<close>.
\<close>

theorem step_alignment_negative_or_above_amount:
  "adjustAmountToStepSize (- 1 / 2) (Some 1) = - 1
   \<and> adjustAmountToStepSize (- 1 / 2) (Some 1) < 0
   \<and> adjustAmountToStepSize (binary64 1.7) (Some (binary64 0.1)) = binary64 1.7000000000000002
   \<and> binary64 1.7 < adjustAmountToStepSize (binary64 1.7) (Some (binary64 0.1))"
  by code_simp

lemma step_count_nonneg:
  assumes "0 \<le> amount" and "0 < s"
  shows "0 \<le> \<lfloor>binary64 (amount / s)\<rfloor>"
proof -
  from assms have "0 \<le> amount / s" by simp
  then have "0 \<le> binary64 (amount / s)" by (rule binary64_nonneg)
  then show ?thesis by simp
qed

lemma step_alignment_upper:
  assumes amount: "0 \<le> amount" and step: "min_normal \<le> s"
  shows "binary64 (of_int \<lfloor>binary64 (amount / s)\<rfloor> * s) \<le> amount * (1 + unit_roundoff)\<^sup>2"
proof -
  have s: "0 < s" using step min_normal_bounds(1) by linarith
  define k where "k = \<lfloor>binary64 (amount / s)\<rfloor>"
  have k0: "0 \<le> k" unfolding k_def using amount s by (rule step_count_nonneg)
  have u: "0 < 1 + unit_roundoff" using unit_roundoff_bounds(1) by linarith
  show ?thesis
  proof (cases "k = 0")
    case True
    have "0 \<le> amount * (1 + unit_roundoff)\<^sup>2" using amount by simp
    moreover from True have "binary64 (of_int k * s) = 0" by (simp add: binary64_zero)
    ultimately show ?thesis by (simp add: k_def)
  next
    case False
    with k0 have k1: "1 \<le> k" by simp
    then have "1 \<le> binary64 (amount / s)" unfolding k_def by linarith
    then have normal: "min_normal \<le> amount / s"
      using binary64_below_one [of "amount / s"] amount s by (cases "amount / s < min_normal") auto
    have "of_int k \<le> binary64 (amount / s)" unfolding k_def by simp
    also have "\<dots> \<le> amount / s * (1 + unit_roundoff)"
      using normal by (rule binary64_upper_normal)
    finally have "of_int k * s \<le> amount / s * (1 + unit_roundoff) * s"
      using s by (intro mult_right_mono) simp_all
    then have product: "of_int k * s \<le> amount * (1 + unit_roundoff)"
      using s by simp
    have "s \<le> of_int k * s"
      using k1 s by (simp add: mult_le_cancel_right1)
    with step have "min_normal \<le> of_int k * s" by linarith
    then have "binary64 (of_int k * s) \<le> of_int k * s * (1 + unit_roundoff)"
      by (rule binary64_upper_normal)
    also have "\<dots> \<le> amount * (1 + unit_roundoff) * (1 + unit_roundoff)"
      using product u by (intro mult_right_mono) simp_all
    finally show ?thesis by (simp add: k_def power2_eq_square mult.assoc)
  qed
qed

text \<open>
  C8, amended. With a step size that is undefined or not positive the amount is returned
  as it is. With a positive step size \<open>s\<close>, and as long as neither the division nor the
  multiplication overflows, the result is the binary64 value nearest to \<open>k * s\<close>, where
  the number of steps \<open>k\<close> is the floor of the binary64 quotient \<open>amount / s\<close>. For a
  non-negative amount, \<open>k\<close> and the result are non-negative; and when \<open>s\<close> is at least
  the smallest normal number, the result is at most \<open>amount * (1 + 2 powi (- 53))\<^sup>2\<close>:
  rounding can lift it above the amount, by no more than that.
\<close>

theorem step_alignment_rounds_a_multiple:
  "(case step of
      None \<Rightarrow> adjustAmountToStepSize amount step = amount
    | Some s \<Rightarrow>
        if s \<le> 0 then adjustAmountToStepSize amount step = amount
        else in_binary64_range (amount / s)
               \<and> in_binary64_range (of_int \<lfloor>binary64 (amount / s)\<rfloor> * s) \<longrightarrow>
             adjustAmountToStepSize amount step = binary64 (of_int \<lfloor>binary64 (amount / s)\<rfloor> * s)
             \<and> (0 \<le> amount \<longrightarrow>
                  0 \<le> \<lfloor>binary64 (amount / s)\<rfloor> \<and> 0 \<le> adjustAmountToStepSize amount step)
             \<and> (0 \<le> amount \<and> min_normal \<le> s \<longrightarrow>
                  adjustAmountToStepSize amount step \<le> amount * (1 + unit_roundoff)\<^sup>2))"
proof (cases step)
  case None
  then show ?thesis by (simp add: adjustAmountToStepSize_def)
next
  case (Some s)
  show ?thesis
  proof (cases "s \<le> 0")
    case True
    with Some show ?thesis by (simp add: adjustAmountToStepSize_def)
  next
    case False
    then have s: "0 < s" by simp
    have eq: "adjustAmountToStepSize amount step = binary64 (of_int \<lfloor>binary64 (amount / s)\<rfloor> * s)"
      using Some False by (simp add: adjustAmountToStepSize_def js_floor_def)
    have nonneg: "0 \<le> \<lfloor>binary64 (amount / s)\<rfloor> \<and> 0 \<le> adjustAmountToStepSize amount step"
      if "0 \<le> amount"
    proof -
      from that s have k: "0 \<le> \<lfloor>binary64 (amount / s)\<rfloor>" by (rule step_count_nonneg)
      then have "0 \<le> of_int \<lfloor>binary64 (amount / s)\<rfloor> * s" using s by simp
      then have "0 \<le> binary64 (of_int \<lfloor>binary64 (amount / s)\<rfloor> * s)" by (rule binary64_nonneg)
      with k eq show ?thesis by simp
    qed
    have upper: "adjustAmountToStepSize amount step \<le> amount * (1 + unit_roundoff)\<^sup>2"
      if "0 \<le> amount \<and> min_normal \<le> s"
      using that step_alignment_upper [of amount s] eq by simp
    from Some False eq nonneg upper show ?thesis by simp
  qed
qed

text \<open>
  C8, amended, at the binary64 values of \<open>1.7\<close> and \<open>0.37\<close> with that of the step size
  \<open>0.1\<close>, where nothing overflows: seventeen steps, rounded, are above \<open>1.7\<close> and
  within the bound; three steps are below \<open>0.37\<close>.
\<close>

theorem step_alignment_rounds_a_multiple_witness:
  "adjustAmountToStepSize (binary64 1.7) (Some (binary64 0.1)) = binary64 (17 * binary64 0.1)
   \<and> 0 \<le> adjustAmountToStepSize (binary64 1.7) (Some (binary64 0.1))
   \<and> adjustAmountToStepSize (binary64 1.7) (Some (binary64 0.1))
       \<le> binary64 1.7 * (1 + unit_roundoff)\<^sup>2
   \<and> adjustAmountToStepSize (binary64 0.37) (Some (binary64 0.1)) = binary64 (3 * binary64 0.1)
   \<and> adjustAmountToStepSize (binary64 0.37) (Some (binary64 0.1)) \<le> binary64 0.37"
proof -
  have step: "\<not> binary64 0.1 \<le> 0" "min_normal \<le> binary64 0.1"
    by code_simp+
  have amounts: "0 \<le> binary64 1.7" "0 \<le> binary64 0.37"
    by code_simp+
  have counts: "\<lfloor>binary64 (binary64 1.7 / binary64 0.1)\<rfloor> = 17"
    "\<lfloor>binary64 (binary64 0.37 / binary64 0.1)\<rfloor> = 3"
    by code_simp+
  have small: "\<bar>binary64 1.7 / binary64 0.1\<bar> \<le> 2 ^ 10" "\<bar>17 * binary64 0.1\<bar> \<le> 2 ^ 10"
    "\<bar>binary64 0.37 / binary64 0.1\<bar> \<le> 2 ^ 10" "\<bar>3 * binary64 0.1\<bar> \<le> 2 ^ 10"
    by code_simp+
  have in_range: "in_binary64_range (binary64 1.7 / binary64 0.1)"
    "in_binary64_range (17 * binary64 0.1)"
    "in_binary64_range (binary64 0.37 / binary64 0.1)"
    "in_binary64_range (3 * binary64 0.1)"
    by (rule in_binary64_range_small, rule small)+
  have below: "binary64 (3 * binary64 0.1) \<le> binary64 0.37"
    by code_simp
  show ?thesis
    using step_alignment_rounds_a_multiple [where step = "Some (binary64 0.1)" and amount = "binary64 1.7"]
      step_alignment_rounds_a_multiple [where step = "Some (binary64 0.1)" and amount = "binary64 0.37"]
      step amounts counts in_range below
    by simp
qed

section \<open>Properties of orderbook.js\<close>

subsection \<open>The VWAP\<close>


lemma take_depth:
  "take (nat \<lceil>min (real (length os)) levels\<rceil>) os = take (nat \<lceil>levels\<rceil>) os"
proof (cases "real (length os) \<le> levels")
  case True
  then have "length os \<le> nat \<lceil>levels\<rceil>"
    by linarith
  with True show ?thesis by (simp add: min_def)
next
  case False
  then show ?thesis by (simp add: min_def)
qed

lemma vwap_loop_positive_sizes:
  "vwap_loop rnd (positive_sizes es) ws tv = vwap_loop rnd es ws tv"
  by (induction rnd es ws tv rule: vwap_loop.induct) (auto simp: positive_sizes_def)

lemma calculateVwap_with_unfold:
  "calculateVwap_with rnd (Some os) levels =
     (if levels \<le> 0 then None
      else
        (let acc = vwap_loop rnd (positive_sizes (take (nat \<lceil>levels\<rceil>) os)) 0 0
         in if snd acc = 0 then None else Some (rnd (fst acc / snd acc))))"
proof (cases "os = []")
  case True
  then show ?thesis
    by (simp add: calculateVwap_with_def positive_sizes_def)
next
  case False
  then show ?thesis
    by (simp add: calculateVwap_with_def take_depth vwap_loop_positive_sizes Let_def case_prod_beta)
qed

lemma positive_sizes_idem: "positive_sizes (positive_sizes es) = positive_sizes es"
  by (simp add: positive_sizes_def)

lemma calculateVwap_with_reads:
  "calculateVwap_with rnd (Some (positive_sizes (take (nat \<lceil>levels\<rceil>) os))) levels
     = calculateVwap_with rnd (Some os) levels"
proof -
  have "length (positive_sizes (take (nat \<lceil>levels\<rceil>) os)) \<le> nat \<lceil>levels\<rceil>"
    unfolding positive_sizes_def
    by (rule order_trans [OF length_filter_le]) simp
  then have "take (nat \<lceil>levels\<rceil>) (positive_sizes (take (nat \<lceil>levels\<rceil>) os))
               = positive_sizes (take (nat \<lceil>levels\<rceil>) os)"
    by simp
  then show ?thesis
    by (simp add: calculateVwap_with_unfold positive_sizes_idem)
qed

lemma vwap_loop_exact:
  "vwap_loop id es ws tv = (ws + weighted_sum (positive_sizes es), tv + total_volume (positive_sizes es))"
  by (induction "id :: real \<Rightarrow> real" es ws tv rule: vwap_loop.induct)
    (auto simp: not_le weighted_sum_def total_volume_def positive_sizes_def)

lemma calculateVwap_exact:
  "calculateVwap_with id (Some os) levels =
     (if levels \<le> 0 then None
      else
        (let es = positive_sizes (take (nat \<lceil>levels\<rceil>) os)
         in if total_volume es = 0 then None else Some (weighted_sum es / total_volume es)))"
  by (simp add: calculateVwap_with_unfold vwap_loop_exact positive_sizes_idem Let_def)

text \<open>
  C7, as the specification states it, fails: the code tests the size of an entry and not
  its price. On the side \<open>[(0, 5), (100, 5)]\<close> with depth \<open>2\<close> the code averages both
  entries and returns \<open>50\<close>; the only valid entry is \<open>(100, 5)\<close>, so either reading of
  the specification gives \<open>100\<close>.
\<close>

theorem vwap_counts_entry_without_positive_price:
  "calculateVwap (Some [(0, 5), (100, 5)]) 2 = Some 50
   \<and> spec_vwap_first_valid [(0, 5), (100, 5)] 2 = Some 100
   \<and> spec_vwap_valid_of_first [(0, 5), (100, 5)] 2 = Some 100"
  by code_simp

lemma example_vwaps:
  "calculateVwap (bids example_book) 2 = Some (binary64 99.95)"
  "calculateVwap (asks example_book) 2 = Some (binary64 100.15)"
  "calculateDepthMidPrice (Some example_book) 2 = Some (binary64 100.05000000000001)"
  "binary64 100.05 < binary64 100.05000000000001"
  by code_simp+

text \<open>
  C7, amended. \<^verbatim>\<open>calculateVwap\<close> returns nothing for a missing side. Its result depends
  only on those of the first \<open>depth\<close> entries of the side whose size is positive (the
  price is not tested), and it returns nothing when \<open>depth \<le> 0\<close> or when there is no
  such entry. In exact arithmetic the result is the size-weighted average price of those
  entries, and nothing when their total volume is zero; the program computes the same
  quotient with every product, every sum and the quotient rounded to binary64. On the
  example book with two levels the program returns the bid VWAP \<open>99.95\<close>, the ask VWAP
  \<open>100.15\<close> and the depth mid price \<open>100.05000000000001\<close>, which is above the binary64
  value of \<open>100.05\<close>.
\<close>

theorem calculateVwap_weighted_average:
  "calculateVwap None depth = None
   \<and> calculateVwap (Some (positive_sizes (take (nat \<lceil>depth\<rceil>) entries))) depth
       = calculateVwap (Some entries) depth
   \<and> (depth \<le> 0 \<or> positive_sizes (take (nat \<lceil>depth\<rceil>) entries) = []
        \<longrightarrow> calculateVwap (Some entries) depth = None)
   \<and> calculateVwap_with id (Some entries) depth =
       (if depth \<le> 0 then None
        else
          (let es = positive_sizes (take (nat \<lceil>depth\<rceil>) entries)
           in if total_volume es = 0 then None else Some (weighted_sum es / total_volume es)))
   \<and> calculateVwap (bids example_book) 2 = Some (binary64 99.95)
   \<and> calculateVwap (asks example_book) 2 = Some (binary64 100.15)
   \<and> calculateDepthMidPrice (Some example_book) 2 = Some (binary64 100.05000000000001)
   \<and> binary64 100.05 < binary64 100.05000000000001"
proof (intro conjI impI)
  show "calculateVwap None depth = None"
    by (simp add: calculateVwap_def calculateVwap_with_def)
  show "calculateVwap (Some (positive_sizes (take (nat \<lceil>depth\<rceil>) entries))) depth
          = calculateVwap (Some entries) depth"
    unfolding calculateVwap_def by (rule calculateVwap_with_reads)
  show "calculateVwap (Some entries) depth = None"
    if "depth \<le> 0 \<or> positive_sizes (take (nat \<lceil>depth\<rceil>) entries) = []"
    using that by (auto simp: calculateVwap_def calculateVwap_with_unfold)
  show "calculateVwap_with id (Some entries) depth =
          (if depth \<le> 0 then None
           else
             (let es = positive_sizes (take (nat \<lceil>depth\<rceil>) entries)
              in if total_volume es = 0 then None else Some (weighted_sum es / total_volume es)))"
    by (rule calculateVwap_exact)
qed (rule example_vwaps)+

text \<open>
  C7, amended, at a side whose best level is empty: with depth \<open>2\<close> the entry of size zero
  is skipped and the third entry is not read, so the VWAP is the price of the second; with
  no entry of positive size among the first two there is no VWAP.
\<close>

theorem calculateVwap_weighted_average_witness:
  "calculateVwap (Some [(100, 0), (99, 5), (98, 5)]) 2 = Some 99
   \<and> calculateVwap (Some [(100, 0), (99, 5), (98, 5)]) 0 = None
   \<and> calculateVwap (Some [(100, 0), (99, 0), (98, 5)]) 2 = None
   \<and> calculateVwap_with id (Some [(100, 0), (99, 5), (98, 5)]) 2 = Some 99"
proof -
  have first_two: "positive_sizes (take (nat \<lceil>2 :: real\<rceil>) [(100, 0), (99, 5), (98, 5)]) = [(99 :: real, 5 :: real)]"
    "positive_sizes (take (nat \<lceil>2 :: real\<rceil>) [(100, 0), (99, 0), (98, 5)]) = ([] :: order_book_side)"
    by (simp_all add: positive_sizes_def)
  have one: "calculateVwap (Some [(99, 5)]) 2 = Some 99"
    by code_simp
  show ?thesis
    using calculateVwap_weighted_average [of 2 "[(100, 0), (99, 5), (98, 5)]"]
      calculateVwap_weighted_average [of 0 "[(100, 0), (99, 5), (98, 5)]"]
      calculateVwap_weighted_average [of 2 "[(100, 0), (99, 0), (98, 5)]"]
      first_two one
    by (simp add: total_volume_def weighted_sum_def)
qed

text \<open>
  Where every price of the side is positive, the algorithm in exact arithmetic agrees with
  the specification read as the valid entries of the first \<open>depth\<close>.
\<close>

lemma calculateVwap_agrees_on_positive_prices:
  assumes "list_all (\<lambda>(price, volume). 0 < price) entries"
  shows "calculateVwap_with id (Some entries) depth = spec_vwap_valid_of_first entries depth"
proof -
  have "0 < fst e" if "e \<in> set (take (nat \<lceil>depth\<rceil>) entries)" for e
  proof -
    from that have "e \<in> set entries" by (rule in_set_takeD)
    with assms show ?thesis by (auto simp: list_all_iff)
  qed
  then have "filter (\<lambda>(price, volume). 0 < price \<and> 0 < volume) (take (nat \<lceil>depth\<rceil>) entries)
               = positive_sizes (take (nat \<lceil>depth\<rceil>) entries)"
    unfolding positive_sizes_def by (intro filter_cong) auto
  then show ?thesis
    by (simp add: calculateVwap_exact spec_vwap_valid_of_first_def)
qed

subsection \<open>Bounds of a weighted average in exact arithmetic\<close>










subsection \<open>The depth mid price\<close>










section \<open>Properties of updateTradedVolume\<close>

lemma trades_loop_volume:
  "fst (trades_loop ts wm nv lt) = nv + volumeAfter wm ts"
  by (induction ts wm nv lt rule: trades_loop.induct) (simp_all add: volumeAfter_def)

lemma trades_loop_skips_watermark:
  "trades_loop (filter (\<lambda>t. tradeTimestamp t \<noteq> wm) ts) wm nv lt = trades_loop ts wm nv lt"
  by (induction ts wm nv lt rule: trades_loop.induct) auto

lemma volumeAfter_nil: "volumeAfter wm [] = 0"
  by (simp add: volumeAfter_def)

lemma updateTradedVolume_trades:
  "updateTradedVolume (Inr (Some trades)) st =
     (if trades = [] \<or> fst (trades_loop trades (priorWatermark st) 0 (priorWatermark st)) \<le> 0
      then st
      else st\<lparr>totalTradedBaseVolume :=
                 totalTradedBaseVolume st
                 + fst (trades_loop trades (priorWatermark st) 0 (priorWatermark st)),
               lastTradeTimestamp :=
                 Some (snd (trades_loop trades (priorWatermark st) 0 (priorWatermark st)) + 1)\<rparr>)"
  by (simp add: updateTradedVolume_def priorWatermark_def case_prod_beta Let_def not_less)

lemma updateTradedVolume_total:
  "totalTradedBaseVolume (updateTradedVolume (Inr (Some trades)) st)
     = totalTradedBaseVolume st + max 0 (volumeAfter (priorWatermark st) trades)"
  by (simp add: updateTradedVolume_trades trades_loop_volume volumeAfter_nil max_def)

lemma updateTradedVolume_skips_watermark:
  "updateTradedVolume (Inr (Some (filter (\<lambda>t. tradeTimestamp t \<noteq> priorWatermark st) trades))) st
     = updateTradedVolume (Inr (Some trades)) st"
proof -
  let ?wm = "priorWatermark st"
  let ?kept = "filter (\<lambda>t. tradeTimestamp t \<noteq> ?wm) trades"
  have loop: "trades_loop ?kept ?wm 0 ?wm = trades_loop trades ?wm 0 ?wm"
    by (rule trades_loop_skips_watermark)
  show ?thesis
  proof (cases "?kept = []")
    case True
    then have "trades_loop trades ?wm 0 ?wm = (0, ?wm)"
      using loop by simp
    with True show ?thesis
      by (simp add: updateTradedVolume_trades)
  next
    case False
    then have "trades \<noteq> []" by auto
    with False loop show ?thesis
      by (simp add: updateTradedVolume_trades)
  qed
qed

text \<open>
  C6. The update counts only trades newer than the prior watermark: dropping every trade
  whose timestamp equals the watermark from the fetched list changes nothing, and the
  total grows by the volume of the trades strictly after the watermark when that volume
  is positive, and by nothing otherwise. So the total never decreases, whatever was
  fetched. When the fetch fails, the state (total and watermark) is the one before.
\<close>

theorem volume_tracker_exclusive_and_monotone:
  "updateTradedVolume (Inr (Some (filter (\<lambda>t. tradeTimestamp t \<noteq> priorWatermark st) trades))) st
     = updateTradedVolume (Inr (Some trades)) st
   \<and> totalTradedBaseVolume (updateTradedVolume (Inr (Some trades)) st)
       = totalTradedBaseVolume st + max 0 (volumeAfter (priorWatermark st) trades)
   \<and> totalTradedBaseVolume st \<le> totalTradedBaseVolume (updateTradedVolume fetched st)
   \<and> updateTradedVolume (Inl err) st = st"
proof (intro conjI)
  show "updateTradedVolume (Inr (Some (filter (\<lambda>t. tradeTimestamp t \<noteq> priorWatermark st) trades))) st
          = updateTradedVolume (Inr (Some trades)) st"
    by (rule updateTradedVolume_skips_watermark)
  show "totalTradedBaseVolume (updateTradedVolume (Inr (Some trades)) st)
          = totalTradedBaseVolume st + max 0 (volumeAfter (priorWatermark st) trades)"
    by (rule updateTradedVolume_total)
  show "updateTradedVolume (Inl err) st = st"
    by (simp add: updateTradedVolume_def)
  show "totalTradedBaseVolume st \<le> totalTradedBaseVolume (updateTradedVolume fetched st)"
  proof (cases fetched)
    case (Inl e)
    then show ?thesis by (simp add: updateTradedVolume_def)
  next
    case (Inr r)
    then show ?thesis
    proof (cases r)
      case None
      with Inr show ?thesis by (simp add: updateTradedVolume_def)
    next
      case (Some trades')
      with Inr show ?thesis by (simp add: updateTradedVolume_total)
    qed
  qed
qed

text \<open>
  C6, at a state with watermark \<open>1000\<close> and total \<open>1.5\<close>: of the trades at \<open>1000\<close>,
  \<open>1001\<close> and \<open>1005\<close> the first is not counted, the total becomes \<open>1.5 + 0.25 + 0.5\<close>
  and the watermark \<open>1006\<close>; a failed fetch leaves the state as it was.
\<close>

theorem volume_tracker_exclusive_and_monotone_witness:
  "updateTradedVolume
     (Inr (Some [\<lparr>tradeTimestamp = 1000, tradeAmount = 2\<rparr>, \<lparr>tradeTimestamp = 1001, tradeAmount = 1 / 4\<rparr>,
                 \<lparr>tradeTimestamp = 1005, tradeAmount = 1 / 2\<rparr>])) resting_state
     = resting_state\<lparr>totalTradedBaseVolume := 9 / 4, lastTradeTimestamp := Some 1006\<rparr>
   \<and> updateTradedVolume (Inl network_down) resting_state = resting_state"
  using volume_tracker_exclusive_and_monotone [of resting_state
      "[\<lparr>tradeTimestamp = 1000, tradeAmount = 2\<rparr>, \<lparr>tradeTimestamp = 1001, tradeAmount = 1 / 4\<rparr>,
        \<lparr>tradeTimestamp = 1005, tradeAmount = 1 / 2\<rparr>]" "Inl network_down" network_down]
  by (simp add: updateTradedVolume_def resting_state_def)

section \<open>Properties of manageOrder\<close>

lemma placeNewOrderIfNeeded_creates_at_most_once:
  "length (filter is_create (snd (placeNewOrderIfNeeded prec answers sd pn sp a p st))) \<le> 1"
  by (simp add: placeNewOrderIfNeeded_def split: sum.splits option.splits)

lemma editExistingOrder_creates_nothing:
  "filter is_create (fst (snd (editExistingOrder h answers sd oid a p st))) = []"
  by (simp add: editExistingOrder_def onEditError_def split: sum.splits prod.splits)

lemma cancelExistingOrder_creates_nothing:
  "filter is_create (fst (snd (cancelExistingOrder answers sd oid st))) = []"
  by (simp add: cancelExistingOrder_def split: sum.splits)

text \<open>\<^verbatim>\<open>manageOrder\<close> on a tracked order, with the pairs of the definition projected.\<close>

lemma manageOrder_tracked:
  assumes "trackedOrderId sd st = Some oid" and "oid \<noteq> []"
  shows "manageOrder prec h answers sd sp a p st =
           (let belowMin = a < minAmount prec;
                sp' = (if belowMin then False else sp);
                a' = (if belowMin then 0 else a);
                r1 = (if sp' then editExistingOrder h answers sd oid a' p st
                      else cancelExistingOrder answers sd oid st);
                r2 = placeNewOrderIfNeeded prec answers sd (snd (snd r1)) sp' a' p (fst r1)
            in (fst r2, fst (snd r1) @ snd r2))"
  using assms by (simp add: manageOrder_def Let_def case_prod_beta)

text \<open>
  C3. One call of \<^verbatim>\<open>manageOrder\<close> issues at most one order creation, whatever the venue
  answers and whether or not it supports editing: the edit branch and the cancel branch
  create nothing, and the last statement creates at most once.
\<close>

theorem manageOrder_places_at_most_once:
  "length (filter is_create (snd (manageOrder prec h answers sd sp a p st))) \<le> 1"
proof (cases "trackedOrderId sd st")
  case None
  then show ?thesis
    using placeNewOrderIfNeeded_creates_at_most_once [of prec answers sd True]
    by (simp add: manageOrder_def)
next
  case (Some oid)
  show ?thesis
  proof (cases "oid = []")
    case True
    with Some show ?thesis
      using placeNewOrderIfNeeded_creates_at_most_once [of prec answers sd True]
      by (simp add: manageOrder_def)
  next
    case False
    show ?thesis
      unfolding manageOrder_tracked [OF Some False] Let_def
      using placeNewOrderIfNeeded_creates_at_most_once [of prec answers sd]
      by (simp add: editExistingOrder_creates_nothing cancelExistingOrder_creates_nothing)
  qed
qed

text \<open>
  C3, at a tracked buy order whose edit the venue refuses: the calls are the edit, the
  cancel of the fallback and one creation. On a venue without \<^verbatim>\<open>editOrder\<close> there is one
  creation as well.
\<close>

theorem manageOrder_places_at_most_once_witness:
  "manageOrder btc_precision True failing_answers Buy True (1 / 100) 100 resting_state
     = (resting_state\<lparr>currentBuyOrderId := Some ''b-19''\<rparr>,
        [EditOrder ''b-17'' Buy (1 / 100) 100, CancelOrder ''b-17'', CreateOrder Buy (1 / 100) 100])
   \<and> length (filter is_create
        (snd (manageOrder btc_precision True failing_answers Buy True (1 / 100) 100 resting_state))) = 1
   \<and> length (filter is_create
        (snd (manageOrder btc_precision False failing_answers Buy True (1 / 100) 100 resting_state))) = 1"
  using manageOrder_places_at_most_once
    [of btc_precision True failing_answers Buy True "1 / 100" 100 resting_state]
  by (simp add: manageOrder_def trackedOrderId_def resting_state_def btc_precision_def
      failing_answers_def editExistingOrder_def onEditError_def placeNewOrderIfNeeded_def Let_def
      setTrackedOrderId_def)

text \<open>
  C5. When an order is tracked on the side and the target amount is below \<open>minAmount\<close>,
  \<^verbatim>\<open>manageOrder\<close> issues exactly one call, the cancel of the tracked order, and clears the
  id of the side; it creates no order.
\<close>

theorem manageOrder_cancels_below_minimum:
  assumes "trackedOrderId sd st = Some oid" and "oid \<noteq> []" and "a < minAmount prec"
  shows "manageOrder prec h answers sd sp a p st = (setTrackedOrderId sd None st, [CancelOrder oid])
         \<and> trackedOrderId sd (fst (manageOrder prec h answers sd sp a p st)) = None
         \<and> filter is_create (snd (manageOrder prec h answers sd sp a p st)) = []"
proof -
  have "manageOrder prec h answers sd sp a p st = (setTrackedOrderId sd None st, [CancelOrder oid])"
    unfolding manageOrder_tracked [OF assms(1,2)]
    using assms(3)
    by (simp add: cancelExistingOrder_def placeNewOrderIfNeeded_def split: sum.splits)
  moreover have "trackedOrderId sd (setTrackedOrderId sd None st) = None"
    by (cases sd) (simp_all add: trackedOrderId_def setTrackedOrderId_def)
  ultimately show ?thesis by simp
qed

text \<open>
  C5, at a tracked buy order and the target amount \<open>0.0005\<close> under the minimum \<open>0.001\<close>:
  the order is cancelled and its id cleared, although placing was allowed.
\<close>

theorem manageOrder_cancels_below_minimum_witness:
  "manageOrder btc_precision True failing_answers Buy True (1 / 2000) 100 resting_state
     = (resting_state\<lparr>currentBuyOrderId := None\<rparr>, [CancelOrder ''b-17''])"
proof -
  have tracked: "trackedOrderId Buy resting_state = Some ''b-17''"
    by (simp add: trackedOrderId_def resting_state_def)
  have nonempty: "''b-17'' \<noteq> []" by simp
  have small: "(1 / 2000 :: real) < minAmount btc_precision"
    by (simp add: btc_precision_def)
  show ?thesis
    using manageOrder_cancels_below_minimum [OF tracked nonempty small, of True failing_answers True 100]
    by (simp add: setTrackedOrderId_def)
qed

section \<open>Properties of cancelStaleOrdersIfNeeded\<close>

text \<open>
  C9. After the stale order cleanup both tracked ids are \<^verbatim>\<open>null\<close>, whatever the two cancel
  calls answer. The hypothesis holds in every state the program reaches.
\<close>

theorem stale_cleanup_clears_both_ids:
  assumes "ids_wellformed st"
  shows "currentBuyOrderId (fst (cancelStaleOrdersIfNeeded buyCancelAnswer sellCancelAnswer st)) = None
         \<and> currentSellOrderId (fst (cancelStaleOrdersIfNeeded buyCancelAnswer sellCancelAnswer st)) = None"
  using assms
  by (auto simp: cancelStaleOrdersIfNeeded_def ids_wellformed_def Let_def split: option.splits)

text \<open>
  C9, at a state with both orders tracked, the buy cancel failing with a network error and
  the sell cancel answering \<^verbatim>\<open>false\<close>: both ids are cleared.
\<close>

theorem stale_cleanup_clears_both_ids_witness:
  "cancelStaleOrdersIfNeeded (Inl network_down) (Inr False) resting_state
     = (resting_state\<lparr>currentBuyOrderId := None, currentSellOrderId := None\<rparr>,
        [CancelOrder ''b-17'', CancelOrder ''s-18''])"
proof -
  have wf: "ids_wellformed resting_state"
    by (simp add: ids_wellformed_def resting_state_def)
  show ?thesis
    using stale_cleanup_clears_both_ids [OF wf, of "Inl network_down" "Inr False"]
    by (simp add: cancelStaleOrdersIfNeeded_def resting_state_def)
qed

subsection \<open>Stored ids are never the empty string\<close>

lemma setTrackedOrderId_keeps_ids_wellformed:
  "ids_wellformed st \<Longrightarrow> v \<noteq> Some [] \<Longrightarrow> ids_wellformed (setTrackedOrderId sd v st)"
  by (cases sd) (simp_all add: ids_wellformed_def setTrackedOrderId_def)

lemma placeNewOrderIfNeeded_keeps_ids_wellformed:
  "ids_wellformed st \<Longrightarrow> ids_wellformed (fst (placeNewOrderIfNeeded prec answers sd pn sp a p st))"
  by (simp add: placeNewOrderIfNeeded_def setTrackedOrderId_keeps_ids_wellformed
      split: sum.splits option.splits)

lemma editExistingOrder_keeps_ids_wellformed:
  "ids_wellformed st \<Longrightarrow> ids_wellformed (fst (editExistingOrder h answers sd oid a p st))"
  by (simp add: editExistingOrder_def onEditError_def setTrackedOrderId_keeps_ids_wellformed
      split: sum.splits prod.splits)

lemma cancelExistingOrder_keeps_ids_wellformed:
  "ids_wellformed st \<Longrightarrow> ids_wellformed (fst (cancelExistingOrder answers sd oid st))"
  by (simp add: cancelExistingOrder_def setTrackedOrderId_keeps_ids_wellformed split: sum.splits)

lemma manageOrder_keeps_ids_wellformed:
  assumes "ids_wellformed st"
  shows "ids_wellformed (fst (manageOrder prec h answers sd sp a p st))"
proof (cases "trackedOrderId sd st")
  case None
  with assms show ?thesis
    by (simp add: manageOrder_def placeNewOrderIfNeeded_keeps_ids_wellformed)
next
  case (Some oid)
  show ?thesis
  proof (cases "oid = []")
    case True
    with Some assms show ?thesis
      by (simp add: manageOrder_def placeNewOrderIfNeeded_keeps_ids_wellformed)
  next
    case False
    show ?thesis
      unfolding manageOrder_tracked [OF Some False] Let_def
      using assms
      by (simp add: placeNewOrderIfNeeded_keeps_ids_wellformed editExistingOrder_keeps_ids_wellformed
          cancelExistingOrder_keeps_ids_wellformed)
  qed
qed

lemma cancelStaleOrdersIfNeeded_keeps_ids_wellformed:
  "ids_wellformed st \<Longrightarrow> ids_wellformed (fst (cancelStaleOrdersIfNeeded x y st))"
  by (auto simp: cancelStaleOrdersIfNeeded_def ids_wellformed_def Let_def split: option.splits)

lemma updateTradedVolume_keeps_ids_wellformed:
  "ids_wellformed st \<Longrightarrow> ids_wellformed (updateTradedVolume fetched st)"
  by (auto simp: updateTradedVolume_def ids_wellformed_def Let_def
      split: sum.splits option.splits prod.splits)

lemma skipCycle_keeps_ids_wellformed:
  "ids_wellformed st \<Longrightarrow> skipCycle answers st = Some (st', calls, outcome) \<Longrightarrow> ids_wellformed st'"
  using cancelStaleOrdersIfNeeded_keeps_ids_wellformed
    [of st "staleBuyCancelAnswer answers" "staleSellCancelAnswer answers"]
  by (auto simp: skipCycle_def split: prod.splits)

lemma initial_state_ids_wellformed: "ids_wellformed initial_state"
  by (simp add: ids_wellformed_def initial_state_def)

lemma runCycle_keeps_ids_wellformed:
  assumes "ids_wellformed st"
    and "runCycle cfg prec h answers fetched st = Some (st', calls, outcome)"
  shows "ids_wellformed st'"
proof -
  have planned: "ids_wellformed
      (updateTradedVolume (tradesAnswer answers)
        (fst (manageOrder prec h (sellAnswers answers) Sell sp2 a2 p2
          (fst (manageOrder prec h (buyAnswers answers) Buy sp1 a1 p1 st)))))"
    for sp1 a1 p1 sp2 a2 p2
    using assms(1)
    by (intro updateTradedVolume_keeps_ids_wellformed manageOrder_keeps_ids_wellformed)
  show ?thesis
    using assms planned
    by (auto simp: runCycle_def onCycleError_def case_prod_beta Let_def
        split: sum.splits option.splits if_splits dest: skipCycle_keeps_ids_wellformed)
qed

section \<open>Properties of runCycle\<close>

subsection \<open>Inventory skew\<close>

lemma targetSpreadAbs_ignores_intensity:
  "targetSpreadAbs (cfg\<lparr>inventorySkewIntensity := x\<rparr>) mid = targetSpreadAbs cfg mid"
  by (simp add: targetSpreadAbs_def split: option.splits)

lemma unskewed_baseline:
  "skewedTargetPrices (cfg\<lparr>inventorySkewIntensity := 0\<rparr>) mid positionSize =
     (mid - targetSpreadAbs cfg mid / 2, mid + targetSpreadAbs cfg mid / 2)"
  by (simp add: skewedTargetPrices_def targetSpreadAbs_ignores_intensity Let_def)

lemma skew_enabled:
  assumes "0 < inventorySkewIntensity cfg" and "positionLimit cfg = Some limit" and "0 < limit"
  shows "skewedTargetPrices cfg mid positionSize =
           (mid - targetSpreadAbs cfg mid / 2
              - targetSpreadAbs cfg mid * inventoryRatio positionSize limit * inventorySkewIntensity cfg,
            mid + targetSpreadAbs cfg mid / 2
              - targetSpreadAbs cfg mid * inventoryRatio positionSize limit * inventorySkewIntensity cfg)"
  using assms by (simp add: skewedTargetPrices_def Let_def)

text \<open>
  C4. With a positive skew intensity and a positive position limit, the inventory ratio
  is the position over the limit clamped to \<open>[-1, 1]\<close>, so it stays in that interval for
  every position; the skew is spread times ratio times intensity, and the buy and the sell
  target are each the unskewed baseline (the same configuration with intensity \<open>0\<close>)
  minus the skew. With limit \<open>1\<close>, intensity \<open>0.5\<close>, spread \<open>10\<close> and position \<open>1\<close> the
  ratio is \<open>1\<close> and both targets are the baseline minus \<open>5\<close>.
\<close>

theorem inventory_skew_shifts_both_prices:
  assumes "0 < inventorySkewIntensity cfg" and "positionLimit cfg = Some limit" and "0 < limit"
  shows "- 1 \<le> inventoryRatio positionSize limit \<and> inventoryRatio positionSize limit \<le> 1
         \<and> inventoryRatio positionSize limit = max (- 1) (min 1 (positionSize / limit))
         \<and> skewedTargetPrices cfg mid positionSize =
             (fst (skewedTargetPrices (cfg\<lparr>inventorySkewIntensity := 0\<rparr>) mid positionSize)
                - targetSpreadAbs cfg mid * inventoryRatio positionSize limit * inventorySkewIntensity cfg,
              snd (skewedTargetPrices (cfg\<lparr>inventorySkewIntensity := 0\<rparr>) mid positionSize)
                - targetSpreadAbs cfg mid * inventoryRatio positionSize limit * inventorySkewIntensity cfg)
         \<and> (limit = 1 \<and> inventorySkewIntensity cfg = 1 / 2 \<and> targetSpreadAbs cfg mid = 10
              \<and> positionSize = 1 \<longrightarrow>
             inventoryRatio positionSize limit = 1
             \<and> skewedTargetPrices cfg mid positionSize =
                 (fst (skewedTargetPrices (cfg\<lparr>inventorySkewIntensity := 0\<rparr>) mid positionSize) - 5,
                  snd (skewedTargetPrices (cfg\<lparr>inventorySkewIntensity := 0\<rparr>) mid positionSize) - 5))"
proof (intro conjI impI)
  show "- 1 \<le> inventoryRatio positionSize limit" "inventoryRatio positionSize limit \<le> 1"
    "inventoryRatio positionSize limit = max (- 1) (min 1 (positionSize / limit))"
    by (simp_all add: inventoryRatio_def)
  show "skewedTargetPrices cfg mid positionSize =
          (fst (skewedTargetPrices (cfg\<lparr>inventorySkewIntensity := 0\<rparr>) mid positionSize)
             - targetSpreadAbs cfg mid * inventoryRatio positionSize limit * inventorySkewIntensity cfg,
           snd (skewedTargetPrices (cfg\<lparr>inventorySkewIntensity := 0\<rparr>) mid positionSize)
             - targetSpreadAbs cfg mid * inventoryRatio positionSize limit * inventorySkewIntensity cfg)"
    by (simp add: skew_enabled [OF assms] unskewed_baseline)
next
  assume example: "limit = 1 \<and> inventorySkewIntensity cfg = 1 / 2 \<and> targetSpreadAbs cfg mid = 10
    \<and> positionSize = 1"
  then show ratio: "inventoryRatio positionSize limit = 1"
    by (simp add: inventoryRatio_def)
  from example ratio
  show "skewedTargetPrices cfg mid positionSize =
          (fst (skewedTargetPrices (cfg\<lparr>inventorySkewIntensity := 0\<rparr>) mid positionSize) - 5,
           snd (skewedTargetPrices (cfg\<lparr>inventorySkewIntensity := 0\<rparr>) mid positionSize) - 5)"
    by (simp add: skew_enabled [OF assms] unskewed_baseline)
qed

text \<open>
  C4, at the configuration of the example (limit \<open>1\<close>, intensity \<open>0.5\<close>) and a depth mid
  price of \<open>100\<close>, where the spread is \<open>10\<close>: the baseline \<open>(95, 105)\<close> becomes
  \<open>(90, 100)\<close> at position \<open>1\<close>, and the ratio of position \<open>250\<close> is still \<open>1\<close>.
\<close>

theorem inventory_skew_shifts_both_prices_witness:
  "targetSpreadAbs example_config 100 = 10
   \<and> inventoryRatio 1 1 = 1
   \<and> inventoryRatio 250 1 = 1
   \<and> skewedTargetPrices (example_config\<lparr>inventorySkewIntensity := 0\<rparr>) 100 1 = (95, 105)
   \<and> skewedTargetPrices example_config 100 1 = (90, 100)"
proof -
  have on: "0 < inventorySkewIntensity example_config"
    and limit: "positionLimit example_config = Some 1" "(0 :: real) < 1"
    by (simp_all add: example_config_def)
  have spread: "targetSpreadAbs example_config 100 = 10"
    by (simp add: targetSpreadAbs_def example_config_def)
  have baseline: "skewedTargetPrices (example_config\<lparr>inventorySkewIntensity := 0\<rparr>) 100 1 = (95, 105)"
    by (simp add: skewedTargetPrices_def targetSpreadAbs_def example_config_def)
  have "inventoryRatio 250 1 = 1"
    by (simp add: inventoryRatio_def)
  with spread baseline show ?thesis
    using inventory_skew_shifts_both_prices [OF on limit, of 1 100]
    by (simp add: example_config_def)
qed

subsection \<open>Crossed prices\<close>

lemma finalTargetPrices_uncrossed:
  assumes "0 < t" and "finalTargetPrices (Some t) targets = Some (b, s)"
  shows "b < s"
  using assms by (auto simp: finalTargetPrices_def Let_def not_le split: if_splits)

lemma cancelStaleOrdersIfNeeded_only_cancels:
  "list_all is_cancel (snd (cancelStaleOrdersIfNeeded x y st))"
  by (simp add: cancelStaleOrdersIfNeeded_def Let_def split: option.splits)

lemma skipCycle_eq:
  "skipCycle answers st =
     Some (fst (cancelStaleOrdersIfNeeded (staleBuyCancelAnswer answers) (staleSellCancelAnswer answers) st),
           snd (cancelStaleOrdersIfNeeded (staleBuyCancelAnswer answers) (staleSellCancelAnswer answers) st),
           Completed)"
  by (simp add: skipCycle_def case_prod_beta)

lemma placeNewOrderIfNeeded_priced:
  "list_all (side_price sd p) (snd (placeNewOrderIfNeeded prec answers sd pn sp a p st))"
  by (simp add: placeNewOrderIfNeeded_def side_price_def split: sum.splits option.splits)

lemma editExistingOrder_priced:
  "list_all (side_price sd p) (fst (snd (editExistingOrder h answers sd oid a p st)))"
  by (simp add: editExistingOrder_def onEditError_def side_price_def split: sum.splits prod.splits)

lemma cancelExistingOrder_priced:
  "list_all (side_price sd p) (fst (snd (cancelExistingOrder answers sd oid st)))"
  by (simp add: cancelExistingOrder_def side_price_def split: sum.splits)

lemma manageOrder_priced:
  "list_all (side_price sd p) (snd (manageOrder prec h answers sd sp a p st))"
proof (cases "trackedOrderId sd st")
  case None
  then show ?thesis by (simp add: manageOrder_def placeNewOrderIfNeeded_priced)
next
  case (Some oid)
  show ?thesis
  proof (cases "oid = []")
    case True
    with Some show ?thesis by (simp add: manageOrder_def placeNewOrderIfNeeded_priced)
  next
    case False
    show ?thesis
      unfolding manageOrder_tracked [OF Some False] Let_def
      by (simp add: placeNewOrderIfNeeded_priced editExistingOrder_priced cancelExistingOrder_priced)
  qed
qed

lemma side_price_quoted:
  "side_price Buy b c \<Longrightarrow> quoted_at b s c" "side_price Sell s c \<Longrightarrow> quoted_at b s c"
  by (cases c; simp add: side_price_def)+

lemma planAmounts_prices:
  "planAmounts cfg prec ob bal pos prices = Some plan \<Longrightarrow>
     buyPrice plan = fst prices \<and> sellPrice plan = snd prices"
  by (auto simp: planAmounts_def Let_def case_prod_beta split: option.splits prod.splits)

text \<open>
  C1. Take a cycle that reaches the price planning (the book has both sides and the depth
  mid price exists) with a positive tick size. After tick alignment and the correction of
  crossed prices, either the final buy price is below the final sell price, and every edit
  and creation of the cycle carries the final price of its side; or the planning gives up,
  and the cycle completes with cancel calls only.
\<close>

theorem final_prices_uncrossed_or_cycle_skipped:
  assumes tick: "tickSize prec = Some t" "0 < t"
    and book: "snapshotOrderBook snapshot = Some ob"
      "bestPrice (bids ob) = Some bestBid" "bestPrice (asks ob) = Some bestAsk"
    and mid: "calculateDepthMidPrice (Some ob) (orderBookDepthLevels cfg) = Some mid"
  shows "case finalTargetPrices (tickSize prec)
                (skewedTargetPrices cfg mid (snapshotPositionSize snapshot)) of
           Some (finalBuyPrice, finalSellPrice) \<Rightarrow>
             finalBuyPrice < finalSellPrice
             \<and> (\<forall>st' calls outcome.
                   runCycle cfg prec hasEditOrder answers (Inr snapshot) st = Some (st', calls, outcome)
                   \<longrightarrow> list_all (quoted_at finalBuyPrice finalSellPrice) calls)
         | None \<Rightarrow>
             (\<exists>st' calls.
                runCycle cfg prec hasEditOrder answers (Inr snapshot) st = Some (st', calls, Completed)
                \<and> list_all is_cancel calls)"
proof (cases "finalTargetPrices (tickSize prec)
                (skewedTargetPrices cfg mid (snapshotPositionSize snapshot))")
  case None
  then have "runCycle cfg prec hasEditOrder answers (Inr snapshot) st = skipCycle answers st"
    using book mid by (simp add: runCycle_def)
  with None show ?thesis
    by (simp add: skipCycle_eq cancelStaleOrdersIfNeeded_only_cancels)
next
  case (Some prices)
  obtain b s where prices: "prices = (b, s)" by (cases prices)
  from Some prices tick have less: "b < s"
    using finalTargetPrices_uncrossed by simp
  have priced: "list_all (quoted_at b s) calls"
    if run: "runCycle cfg prec hasEditOrder answers (Inr snapshot) st = Some (st', calls, outcome)"
    for st' calls outcome
  proof -
    from run Some book mid tick obtain plan where
      plan: "planAmounts cfg prec ob (snapshotBalance snapshot) (snapshotPositionSize snapshot) prices
               = Some plan"
      by (auto simp: runCycle_def split: option.splits)
    then have p: "buyPrice plan = b" "sellPrice plan = s"
      using planAmounts_prices [OF plan] prices by simp_all
    let ?buy = "manageOrder prec hasEditOrder (buyAnswers answers) Buy
                  (placeBuy plan) (buyAmount plan) b st"
    let ?sell = "manageOrder prec hasEditOrder (sellAnswers answers) Sell
                  (placeSell plan) (sellAmount plan) s (fst ?buy)"
    from run Some book mid tick plan p have "calls = snd ?buy @ snd ?sell"
      by (auto simp: runCycle_def case_prod_beta Let_def)
    moreover have "list_all (quoted_at b s) (snd ?buy)"
      using manageOrder_priced [of Buy b] by (auto simp: list_all_iff intro: side_price_quoted)
    moreover have "list_all (quoted_at b s) (snd ?sell)"
      using manageOrder_priced [of Sell s] by (auto simp: list_all_iff intro: side_price_quoted)
    ultimately show ?thesis by simp
  qed
  from Some prices less priced show ?thesis by auto
qed

subsection \<open>Two cycles evaluated\<close>

lemma example_mid:
  "calculateDepthMidPrice (Some example_book) 2 = Some example_depth_mid"
  by code_simp

lemma tight_prices:
  "finalTargetPrices (Some 1) (skewedTargetPrices tight_config example_depth_mid 0)
     = Some (99, 100)"
  by code_simp

lemma inverted_prices:
  "finalTargetPrices (Some 1) (skewedTargetPrices inverted_config example_depth_mid 0)
     = None"
  by code_simp

lemma tight_plan:
  "planAmounts tight_config unit_tick_precision example_book 1000 0 (99, 100)
     = Some \<lparr>placeBuy = True, buyAmount = 1, buyPrice = 99,
              placeSell = False, sellAmount = 0, sellPrice = 100\<rparr>"
  by code_simp

lemma tight_cycle:
  "runCycle tight_config unit_tick_precision True quiet_answers (Inr flat_snapshot) initial_state
     = Some (initial_state\<lparr>currentBuyOrderId := Some ''b-19''\<rparr>, [CreateOrder Buy 1 99], Completed)"
proof -
  have book: "snapshotOrderBook flat_snapshot = Some example_book"
    "snapshotBalance flat_snapshot = 1000" "snapshotPositionSize flat_snapshot = 0"
    by (simp_all add: flat_snapshot_def)
  have best: "bestPrice (bids example_book) = Some 100" "bestPrice (asks example_book) = Some example_best_ask"
    by (simp_all add: bestPrice_def example_book_def example_best_ask_def)
  have cfgs: "orderBookDepthLevels tight_config = 2" "tickSize unit_tick_precision = Some 1"
    by (simp_all add: tight_config_def unit_tick_precision_def)
  have buy: "manageOrder unit_tick_precision True failing_answers Buy True 1 99 initial_state
               = (initial_state\<lparr>currentBuyOrderId := Some ''b-19''\<rparr>, [CreateOrder Buy 1 99])"
    by (simp add: manageOrder_def trackedOrderId_def initial_state_def placeNewOrderIfNeeded_def
        failing_answers_def unit_tick_precision_def setTrackedOrderId_def)
  have sell: "manageOrder unit_tick_precision True failing_answers Sell False 0 100
                (initial_state\<lparr>currentBuyOrderId := Some ''b-19''\<rparr>)
               = (initial_state\<lparr>currentBuyOrderId := Some ''b-19''\<rparr>, [])"
    by (simp add: manageOrder_def trackedOrderId_def initial_state_def placeNewOrderIfNeeded_def
        setTrackedOrderId_def)
  have answers: "buyAnswers quiet_answers = failing_answers" "sellAnswers quiet_answers = failing_answers"
    "tradesAnswer quiet_answers = Inr (Some [])"
    by (simp_all add: quiet_answers_def)
  show ?thesis
    by (simp add: runCycle_def book best cfgs example_mid tight_prices tight_plan buy sell answers
        updateTradedVolume_def)
qed

text \<open>
  C1, at the example book with a tick size of \<open>1\<close>. With a spread of about \<open>0.05\<close> both
  targets align to \<open>100\<close>; the buy price is lowered by one tick, and the cycle creates a
  buy order at \<open>99\<close> under the sell price \<open>100\<close>. With the spread bounds inverted the
  prices stay crossed after both corrections, and the cycle only cancels the two tracked
  orders.
\<close>

theorem final_prices_uncrossed_or_cycle_skipped_witness:
  "finalTargetPrices (tickSize unit_tick_precision)
       (skewedTargetPrices tight_config example_depth_mid (snapshotPositionSize flat_snapshot)) = Some (99, 100)
   \<and> (99 :: real) < 100
   \<and> runCycle tight_config unit_tick_precision True quiet_answers (Inr flat_snapshot) initial_state
       = Some (initial_state\<lparr>currentBuyOrderId := Some ''b-19''\<rparr>, [CreateOrder Buy 1 99], Completed)
   \<and> list_all (quoted_at 99 100) [CreateOrder Buy 1 99]
   \<and> finalTargetPrices (tickSize unit_tick_precision)
       (skewedTargetPrices inverted_config example_depth_mid (snapshotPositionSize flat_snapshot)) = None
   \<and> runCycle inverted_config unit_tick_precision True quiet_answers (Inr flat_snapshot) resting_state
       = Some (resting_state\<lparr>currentBuyOrderId := None, currentSellOrderId := None\<rparr>,
               [CancelOrder ''b-17'', CancelOrder ''s-18''], Completed)"
proof -
  have tick: "tickSize unit_tick_precision = Some 1" "(0 :: real) < 1"
    by (simp_all add: unit_tick_precision_def)
  have book: "snapshotOrderBook flat_snapshot = Some example_book"
    "bestPrice (bids example_book) = Some 100" "bestPrice (asks example_book) = Some example_best_ask"
    by (simp_all add: flat_snapshot_def bestPrice_def example_book_def example_best_ask_def)
  have mid: "calculateDepthMidPrice (Some example_book) (orderBookDepthLevels tight_config)
               = Some example_depth_mid"
    "calculateDepthMidPrice (Some example_book) (orderBookDepthLevels inverted_config)
               = Some example_depth_mid"
    by (simp_all add: example_mid tight_config_def inverted_config_def)
  have flat: "snapshotPositionSize flat_snapshot = 0"
    by (simp add: flat_snapshot_def)
  have stale: "cancelStaleOrdersIfNeeded (Inl network_down) (Inr True) resting_state
                 = (resting_state\<lparr>currentBuyOrderId := None, currentSellOrderId := None\<rparr>,
                    [CancelOrder ''b-17'', CancelOrder ''s-18''])"
    by (simp add: cancelStaleOrdersIfNeeded_def resting_state_def)
  have skipped: "runCycle inverted_config unit_tick_precision True quiet_answers (Inr flat_snapshot)
                   resting_state = skipCycle quiet_answers resting_state"
    by (simp add: runCycle_def book mid tick flat inverted_prices)
  have stale_answers: "staleBuyCancelAnswer quiet_answers = Inl network_down"
    "staleSellCancelAnswer quiet_answers = Inr True"
    by (simp_all add: quiet_answers_def)
  have aborted: "runCycle inverted_config unit_tick_precision True quiet_answers (Inr flat_snapshot)
                   resting_state
                 = Some (resting_state\<lparr>currentBuyOrderId := None, currentSellOrderId := None\<rparr>,
                         [CancelOrder ''b-17'', CancelOrder ''s-18''], Completed)"
    by (simp add: skipped skipCycle_def stale_answers stale)
  from final_prices_uncrossed_or_cycle_skipped
    [OF tick book mid(1), of True quiet_answers initial_state]
  have "list_all (quoted_at 99 100) [CreateOrder Buy 1 99]"
    by (simp add: tick flat tight_prices tight_cycle)
  moreover
  from final_prices_uncrossed_or_cycle_skipped
    [OF tick book mid(2), of True quiet_answers resting_state]
  have "\<exists>st' calls. runCycle inverted_config unit_tick_precision True quiet_answers
          (Inr flat_snapshot) resting_state = Some (st', calls, Completed) \<and> list_all is_cancel calls"
    by (simp add: tick flat inverted_prices)
  ultimately show ?thesis
    by (simp add: tick flat tight_prices inverted_prices tight_cycle aborted)
qed

end
